theory Spec2Isabelle
  imports Complex_Main "HOL-Library.Monad_Syntax"
begin

section \<open>Conventions of the embedding\<close>

text \<open>
  The SLALIB routines of the controllers are embedded as HOL functions. Where a routine is
  studied in exact arithmetic, a C \<open>float\<close> or \<open>double\<close> is a \<^typ>\<open>real\<close>, the casts
  between the two are the identity, and the run-time's \<open>sin_\<close>, \<open>cos_\<close>, \<open>sqrt_\<close> and
  \<open>fabs_\<close> are \<^const>\<open>sin\<close>, \<^const>\<open>cos\<close>, \<^const>\<open>sqrt\<close> and \<^const>\<open>abs\<close>; rounding,
  infinities and NaN are then outside the model. The tangent-plane projection \<open>slaS2tp\<close>
  branches on the sign and the size of a rounded value, and is modelled in single precision
  instead, with infinities and NaN.
  A C \<open>int\<close> is an \<^typ>\<open>int\<close>: the routines only compare integers and convert them to
  \<open>double\<close>, so no integer operation can overflow. An output parameter becomes a component
  of the returned value, and a status is the integer the routine stores in it.

  Where a routine divides by a value it has computed, the division has no result for a
  zero divisor (\<open>fdiv\<close> on the reals, \<open>f32_div\<close> in single precision), and the routine
  returns an \<^typ>\<open>'a option\<close>: \<^const>\<open>None\<close> stands for a run in which a division by zero
  took place.
\<close>

definition fdiv :: "real \<Rightarrow> real \<Rightarrow> real option" where
  "fdiv a b = (if b = 0 then None else Some (a / b))"

type_synonym vec3 = "real \<times> real \<times> real"
type_synonym mat3 = "vec3 \<times> vec3 \<times> vec3"

subsection \<open>Constants and macros of \<open>slamac.h\<close>\<close>

text \<open>Modelled from the spec: \<open>D2PI\<close> of \<open>slamac.h\<close>, a full turn in radians.\<close>

definition D2PI :: real where
  "D2PI = 2 * pi"

text \<open>Modelled from the spec: \<open>DD2R\<close> of \<open>slamac.h\<close>, degrees to radians.\<close>

definition DD2R :: real where
  "DD2R = pi / 180"

text \<open>Modelled from the spec: \<open>DAS2R\<close> of \<open>slamac.h\<close>, arc seconds to radians
  (a full turn is 1296000 arc seconds).\<close>

definition DAS2R :: real where
  "DAS2R = pi / 648000"

text \<open>Modelled from the spec: the macro \<open>dmod\<close> of \<open>slamac.h\<close>, which the spec describes as
  a floor-based modulo keeping its result in \<open>[0, B)\<close>, also for a negative operand.\<close>

definition dmod :: "real \<Rightarrow> real \<Rightarrow> real" where
  "dmod A B = A - B * of_int \<lfloor>A / B\<rfloor>"

text \<open>The run-time's \<open>fmod_\<close>, the C library's \<open>fmod\<close>: the remainder of the division
  truncated towards zero.\<close>

definition fmod :: "real \<Rightarrow> real \<Rightarrow> real" where
  "fmod x y = x - y * of_int (if 0 \<le> x / y then \<lfloor>x / y\<rfloor> else \<lceil>x / y\<rceil>)"

section \<open>Vector and matrix primitives\<close>

subsection \<open>\<open>slaCs2c\<close>: spherical coordinates to direction cosines\<close>

definition slaCs2c :: "real \<Rightarrow> real \<Rightarrow> vec3" where
  "slaCs2c a b =
     (let cosb = cos b
      in (cos a * cosb, sin a * cosb, sin b))"

definition vnorm :: "vec3 \<Rightarrow> real" where
  "vnorm v = (case v of (x, y, z) \<Rightarrow> sqrt (x * x + y * y + z * z))"

subsection \<open>\<open>slaAv2m\<close>: rotation matrix of an axial vector\<close>

definition slaAv2m :: "vec3 \<Rightarrow> mat3 option" where
  "slaAv2m axvec =
     (case axvec of (x, y, z) \<Rightarrow>
      let phi = sqrt (x * x + y * y + z * z);
          s = sin phi;
          c = cos phi;
          w = 1 - c
      in do {
        (x, y, z) \<leftarrow>
          (if phi \<noteq> 0
           then do {
             x' \<leftarrow> fdiv x phi;
             y' \<leftarrow> fdiv y phi;
             z' \<leftarrow> fdiv z phi;
             Some (x', y', z')
           }
           else Some (x, y, z));
        Some ((x * x * w + c, x * y * w + z * s, x * z * w - y * s),
              (x * y * w - z * s, y * y * w + c, y * z * w + x * s),
              (x * z * w + y * s, y * z * w - x * s, z * z * w + c))
      })"

text \<open>The matrix that lines 56 to 64 build from the axis \<open>(x, y, z)\<close> and the sine and
  cosine of the angle.\<close>

definition rodrigues :: "real \<Rightarrow> real \<Rightarrow> real \<Rightarrow> real \<Rightarrow> real \<Rightarrow> mat3" where
  "rodrigues x y z s c =
     ((x * x * (1 - c) + c, x * y * (1 - c) + z * s, x * z * (1 - c) - y * s),
      (x * y * (1 - c) - z * s, y * y * (1 - c) + c, y * z * (1 - c) + x * s),
      (x * z * (1 - c) + y * s, y * z * (1 - c) - x * s, z * z * (1 - c) + c))"

definition dot3 :: "vec3 \<Rightarrow> vec3 \<Rightarrow> real" where
  "dot3 u v = (case u of (a, b, c) \<Rightarrow> case v of (d, e, f) \<Rightarrow> a * d + b * e + c * f)"

text \<open>The product of a matrix with its own transpose: entry \<open>(i, j)\<close> is the dot product of
  rows \<open>i\<close> and \<open>j\<close>.\<close>

definition mxmt :: "mat3 \<Rightarrow> mat3" where
  "mxmt R =
     (case R of (r0, r1, r2) \<Rightarrow>
        ((dot3 r0 r0, dot3 r0 r1, dot3 r0 r2),
         (dot3 r1 r0, dot3 r1 r1, dot3 r1 r2),
         (dot3 r2 r0, dot3 r2 r1, dot3 r2 r2)))"

definition unit_matrix :: mat3 where
  "unit_matrix = ((1, 0, 0), (0, 1, 0), (0, 0, 1))"

subsection \<open>Single precision\<close>

text \<open>
  A value of the C type \<open>float\<close>: a finite number, an infinity or a NaN. The two zeros of
  the format are one value here: they compare equal, and the model gives no result to the
  one operation that tells them apart, a division by zero.
\<close>

datatype float32 = Finite real | PInf | NInf | NaN

text \<open>The largest finite single-precision number, \<open>(2^24 - 1) 2^104\<close>.\<close>

definition max_float32 :: real where
  "max_float32 = (2 ^ 24 - 1) * 2 ^ 104"

definition pow2 :: "int \<Rightarrow> real" where
  "pow2 e = (if 0 \<le> e then 2 ^ nat e else 1 / 2 ^ nat (- e))"

text \<open>The unit in the last place of a nonzero \<open>x\<close>: 24 significant bits, and the exponent
  never below that of the smallest normal number.\<close>

definition ulp32 :: "real \<Rightarrow> real" where
  "ulp32 x = pow2 (max \<lfloor>log 2 \<bar>x\<bar>\<rfloor> (- 126) - 23)"

text \<open>The nearest integer, a tie going to the even one.\<close>

definition round_even :: "real \<Rightarrow> int" where
  "round_even y =
     (let n = \<lfloor>y\<rfloor>; r = y - real_of_int n
      in if r < 1 / 2 then n
         else if 1 / 2 < r then n + 1
         else if even n then n else n + 1)"

text \<open>Rounding of a real result to single precision, to nearest with ties to even; a
  result beyond the largest finite number is an infinity.\<close>

definition rnd32 :: "real \<Rightarrow> float32" where
  "rnd32 x =
     (if x = 0 then Finite 0
      else
        let y = real_of_int (round_even (x / ulp32 x)) * ulp32 x
        in if max_float32 < y then PInf
           else if y < - max_float32 then NInf
           else Finite y)"

text \<open>A real number is a single-precision number when rounding leaves it as it is.\<close>

definition is_float32 :: "real \<Rightarrow> bool" where
  "is_float32 x = (rnd32 x = Finite x)"

fun f32_neg :: "float32 \<Rightarrow> float32" where
  "f32_neg (Finite a) = Finite (- a)"
| "f32_neg PInf = NInf"
| "f32_neg NInf = PInf"
| "f32_neg NaN = NaN"

fun f32_add :: "float32 \<Rightarrow> float32 \<Rightarrow> float32" where
  "f32_add (Finite a) (Finite b) = rnd32 (a + b)"
| "f32_add NaN _ = NaN"
| "f32_add _ NaN = NaN"
| "f32_add PInf NInf = NaN"
| "f32_add NInf PInf = NaN"
| "f32_add PInf _ = PInf"
| "f32_add _ PInf = PInf"
| "f32_add NInf _ = NInf"
| "f32_add _ NInf = NInf"

definition f32_sub :: "float32 \<Rightarrow> float32 \<Rightarrow> float32" where
  "f32_sub a b = f32_add a (f32_neg b)"

text \<open>The infinity of the sign of \<open>s\<close>; NaN for a zero, as in \<open>0 * inf\<close>.\<close>

definition inf_of_sign :: "real \<Rightarrow> float32" where
  "inf_of_sign s = (if s = 0 then NaN else if 0 < s then PInf else NInf)"

fun f32_mul :: "float32 \<Rightarrow> float32 \<Rightarrow> float32" where
  "f32_mul (Finite a) (Finite b) = rnd32 (a * b)"
| "f32_mul NaN _ = NaN"
| "f32_mul _ NaN = NaN"
| "f32_mul (Finite a) PInf = inf_of_sign a"
| "f32_mul (Finite a) NInf = inf_of_sign (- a)"
| "f32_mul PInf (Finite b) = inf_of_sign b"
| "f32_mul NInf (Finite b) = inf_of_sign (- b)"
| "f32_mul PInf PInf = PInf"
| "f32_mul NInf NInf = PInf"
| "f32_mul PInf NInf = NInf"
| "f32_mul NInf PInf = NInf"

text \<open>Division; \<^const>\<open>None\<close> for a zero divisor, where the result would depend on the sign
  of the zero.\<close>

fun f32_div :: "float32 \<Rightarrow> float32 \<Rightarrow> float32 option" where
  "f32_div (Finite a) (Finite b) = (if b = 0 then None else Some (rnd32 (a / b)))"
| "f32_div NaN (Finite b) = (if b = 0 then None else Some NaN)"
| "f32_div PInf (Finite b) = (if b = 0 then None else Some (inf_of_sign b))"
| "f32_div NInf (Finite b) = (if b = 0 then None else Some (inf_of_sign (- b)))"
| "f32_div _ NaN = Some NaN"
| "f32_div (Finite a) _ = Some (Finite 0)"
| "f32_div _ _ = Some NaN"

text \<open>\<open>(float) sin_ ( x )\<close> and \<open>(float) cos_ ( x )\<close>: the run-time's functions are taken
  to return the sine and the cosine, which the cast rounds to single precision; they have
  no value at an infinity or a NaN.\<close>

fun f32_sin :: "float32 \<Rightarrow> float32" where
  "f32_sin (Finite x) = rnd32 (sin x)"
| "f32_sin _ = NaN"

fun f32_cos :: "float32 \<Rightarrow> float32" where
  "f32_cos (Finite x) = rnd32 (cos x)"
| "f32_cos _ = NaN"

text \<open>The comparisons are exact, and false whenever an operand is NaN.\<close>

fun f32_less :: "float32 \<Rightarrow> float32 \<Rightarrow> bool" where
  "f32_less (Finite a) (Finite b) = (a < b)"
| "f32_less NaN _ = False"
| "f32_less _ NaN = False"
| "f32_less _ NInf = False"
| "f32_less PInf _ = False"
| "f32_less _ _ = True"

fun f32_le :: "float32 \<Rightarrow> float32 \<Rightarrow> bool" where
  "f32_le (Finite a) (Finite b) = (a \<le> b)"
| "f32_le NaN _ = False"
| "f32_le _ NaN = False"
| "f32_le NInf _ = True"
| "f32_le _ PInf = True"
| "f32_le _ _ = False"

definition f32_gt :: "float32 \<Rightarrow> float32 \<Rightarrow> bool" where
  "f32_gt a b = f32_less b a"

definition f32_ge :: "float32 \<Rightarrow> float32 \<Rightarrow> bool" where
  "f32_ge a b = f32_le b a"

subsection \<open>\<open>slaS2tp\<close>: gnomonic projection onto the tangent plane\<close>

text \<open>
  The status of this routine is not continuous in its denominator, so the routine is
  modelled in the single precision it is written in: the arguments and all the variables
  are \<^typ>\<open>float32\<close>, and every operation rounds its result to single precision.
\<close>

text \<open>\<open>#define TINY 1e-6f\<close>: the decimal \<open>1e-6\<close> rounded to single precision.\<close>

definition TINY :: float32 where
  "TINY = rnd32 (1 / 1000000)"

text \<open>The reciprocal of the star vector length to the tangent plane, as line 48 forms it.\<close>

definition s2tp_denom :: "float32 \<Rightarrow> float32 \<Rightarrow> float32 \<Rightarrow> float32 \<Rightarrow> float32" where
  "s2tp_denom ra dec raz decz =
     (let sdecz = f32_sin decz; sdec = f32_sin dec;
          cdecz = f32_cos decz; cdec = f32_cos dec;
          radif = f32_sub ra raz; cradif = f32_cos radif
      in f32_add (f32_mul sdec sdecz) (f32_mul (f32_mul cdec cdecz) cradif))"

text \<open>The numerators of \<open>xi\<close> and \<open>eta\<close>, as lines 64 and 65 form them.\<close>

definition s2tp_xi_num :: "float32 \<Rightarrow> float32 \<Rightarrow> float32 \<Rightarrow> float32 \<Rightarrow> float32" where
  "s2tp_xi_num ra dec raz decz =
     (let cdec = f32_cos dec; radif = f32_sub ra raz; sradif = f32_sin radif
      in f32_mul cdec sradif)"

definition s2tp_eta_num :: "float32 \<Rightarrow> float32 \<Rightarrow> float32 \<Rightarrow> float32 \<Rightarrow> float32" where
  "s2tp_eta_num ra dec raz decz =
     (let sdecz = f32_sin decz; sdec = f32_sin dec;
          cdecz = f32_cos decz; cdec = f32_cos dec;
          radif = f32_sub ra raz; cradif = f32_cos radif
      in f32_sub (f32_mul sdec cdecz) (f32_mul (f32_mul cdec sdecz) cradif))"

text \<open>The \<open>if\<close> chain of lines 51 to 61: the status and the denominator the divisions use.\<close>

definition s2tp_handle :: "float32 \<Rightarrow> int \<times> float32" where
  "s2tp_handle denom =
     (if f32_gt denom TINY then (0, denom)
      else if f32_ge denom (Finite 0) then (1, TINY)
      else if f32_gt denom (f32_neg TINY) then (2, f32_neg TINY)
      else (3, denom))"

text \<open>The result is \<open>(xi, eta, j)\<close>.\<close>

definition slaS2tp ::
    "float32 \<Rightarrow> float32 \<Rightarrow> float32 \<Rightarrow> float32 \<Rightarrow> (float32 \<times> float32 \<times> int) option" where
  "slaS2tp ra dec raz decz =
     (let sdecz = f32_sin decz; sdec = f32_sin dec;
          cdecz = f32_cos decz; cdec = f32_cos dec;
          radif = f32_sub ra raz;
          sradif = f32_sin radif; cradif = f32_cos radif;
          denom = f32_add (f32_mul sdec sdecz) (f32_mul (f32_mul cdec cdecz) cradif);
          (j, denom) = s2tp_handle denom
      in do {
        xi \<leftarrow> f32_div (f32_mul cdec sradif) denom;
        eta \<leftarrow> f32_div (f32_sub (f32_mul sdec cdecz) (f32_mul (f32_mul cdec sdecz) cradif))
                 denom;
        Some (xi, eta, j)
      })"

text \<open>The single-precision number nearest to \<open>\<pi> / 4\<close>.\<close>

definition fl_quarter_pi :: real where
  "fl_quarter_pi = 13176795 / 16777216"

text \<open>The single-precision number nearest to \<open>\<pi> / 2\<close>.\<close>

definition fl_half_pi :: real where
  "fl_half_pi = 13176795 / 8388608"

section \<open>Time scalar conversion\<close>

subsection \<open>\<open>slaDtf2d\<close>: hours, minutes, seconds to days\<close>

definition D2S :: real where
  "D2S = 86400"

text \<open>The result is \<open>(days, j)\<close>; the three validations are three assignments in a row.\<close>

definition slaDtf2d :: "int \<Rightarrow> int \<Rightarrow> real \<Rightarrow> real \<times> int" where
  "slaDtf2d ihour imin sec =
     (let jstat = (0 :: int);
          jstat = (if sec < 0 \<or> sec \<ge> 60 then 3 else jstat);
          jstat = (if imin < 0 \<or> imin > 59 then 2 else jstat);
          jstat = (if ihour < 0 \<or> ihour > 23 then 1 else jstat)
      in ((60 * (60 * real_of_int ihour + real_of_int imin) + sec) / D2S, jstat))"

section \<open>Nutation model\<close>

subsection \<open>\<open>slaNutc\<close>: the tables of the SF2001 forced nutation model\<close>

definition TURNAS :: real where
  "TURNAS = 1296000"

definition DJM0 :: real where
  "DJM0 = 51544.5"

definition DJC :: real where
  "DJC = 36525"

text \<open>Coefficients of the fundamental angles, one row of integers for each term.\<close>

definition na :: "int list list" where
  "na =
   [[0, 0, 0, 0, -1, 0, 0, 0, 0],
   [0, 0, 2, -2, 2, 0, 0, 0, 0],
   [0, 0, 2, 0, 2, 0, 0, 0, 0],
   [0, 0, 0, 0, -2, 0, 0, 0, 0],
   [0, 1, 0, 0, 0, 0, 0, 0, 0],
   [0, 1, 2, -2, 2, 0, 0, 0, 0],
   [1, 0, 0, 0, 0, 0, 0, 0, 0],
   [0, 0, 2, 0, 1, 0, 0, 0, 0],
   [1, 0, 2, 0, 2, 0, 0, 0, 0],
   [0, -1, 2, -2, 2, 0, 0, 0, 0],
   [0, 0, 2, -2, 1, 0, 0, 0, 0],
   [-1, 0, 2, 0, 2, 0, 0, 0, 0],
   [-1, 0, 0, 2, 0, 0, 0, 0, 0],
   [1, 0, 0, 0, 1, 0, 0, 0, 0],
   [1, 0, 0, 0, -1, 0, 0, 0, 0],
   [-1, 0, 2, 2, 2, 0, 0, 0, 0],
   [1, 0, 2, 0, 1, 0, 0, 0, 0],
   [-2, 0, 2, 0, 1, 0, 0, 0, 0],
   [0, 0, 0, 2, 0, 0, 0, 0, 0],
   [0, 0, 2, 2, 2, 0, 0, 0, 0],
   [2, 0, 0, -2, 0, 0, 0, 0, 0],
   [2, 0, 2, 0, 2, 0, 0, 0, 0],
   [1, 0, 2, -2, 2, 0, 0, 0, 0],
   [-1, 0, 2, 0, 1, 0, 0, 0, 0],
   [2, 0, 0, 0, 0, 0, 0, 0, 0],
   [0, 0, 2, 0, 0, 0, 0, 0, 0],
   [0, 1, 0, 0, 1, 0, 0, 0, 0],
   [-1, 0, 0, 2, 1, 0, 0, 0, 0],
   [0, 2, 2, -2, 2, 0, 0, 0, 0],
   [0, 0, 2, -2, 0, 0, 0, 0, 0],
   [-1, 0, 0, 2, -1, 0, 0, 0, 0],
   [0, 1, 0, 0, -1, 0, 0, 0, 0],
   [0, 2, 0, 0, 0, 0, 0, 0, 0],
   [-1, 0, 2, 2, 1, 0, 0, 0, 0],
   [1, 0, 2, 2, 2, 0, 0, 0, 0],
   [0, 1, 2, 0, 2, 0, 0, 0, 0],
   [-2, 0, 2, 0, 0, 0, 0, 0, 0],
   [0, 0, 2, 2, 1, 0, 0, 0, 0],
   [0, -1, 2, 0, 2, 0, 0, 0, 0],
   [0, 0, 0, 2, 1, 0, 0, 0, 0],
   [1, 0, 2, -2, 1, 0, 0, 0, 0],
   [2, 0, 0, -2, -1, 0, 0, 0, 0],
   [2, 0, 2, -2, 2, 0, 0, 0, 0],
   [2, 0, 2, 0, 1, 0, 0, 0, 0],
   [0, 0, 0, 2, -1, 0, 0, 0, 0],
   [0, -1, 2, -2, 1, 0, 0, 0, 0],
   [-1, -1, 0, 2, 0, 0, 0, 0, 0],
   [2, 0, 0, -2, 1, 0, 0, 0, 0],
   [1, 0, 0, 2, 0, 0, 0, 0, 0],
   [0, 1, 2, -2, 1, 0, 0, 0, 0],
   [1, -1, 0, 0, 0, 0, 0, 0, 0],
   [-2, 0, 2, 0, 2, 0, 0, 0, 0],
   [0, -1, 0, 2, 0, 0, 0, 0, 0],
   [3, 0, 2, 0, 2, 0, 0, 0, 0],
   [0, 0, 0, 1, 0, 0, 0, 0, 0],
   [1, -1, 2, 0, 2, 0, 0, 0, 0],
   [1, 0, 0, -1, 0, 0, 0, 0, 0],
   [-1, -1, 2, 2, 2, 0, 0, 0, 0],
   [-1, 0, 2, 0, 0, 0, 0, 0, 0],
   [2, 0, 0, 0, -1, 0, 0, 0, 0],
   [0, -1, 2, 2, 2, 0, 0, 0, 0],
   [1, 1, 2, 0, 2, 0, 0, 0, 0],
   [2, 0, 0, 0, 1, 0, 0, 0, 0],
   [1, 1, 0, 0, 0, 0, 0, 0, 0],
   [1, 0, -2, 2, -1, 0, 0, 0, 0],
   [1, 0, 2, 0, 0, 0, 0, 0, 0],
   [-1, 1, 0, 1, 0, 0, 0, 0, 0],
   [1, 0, 0, 0, 2, 0, 0, 0, 0],
   [-1, 0, 1, 0, 1, 0, 0, 0, 0],
   [0, 0, 2, 1, 2, 0, 0, 0, 0],
   [-1, 1, 0, 1, 1, 0, 0, 0, 0],
   [-1, 0, 2, 4, 2, 0, 0, 0, 0],
   [0, -2, 2, -2, 1, 0, 0, 0, 0],
   [1, 0, 2, 2, 1, 0, 0, 0, 0],
   [1, 0, 0, 0, -2, 0, 0, 0, 0],
   [-2, 0, 2, 2, 2, 0, 0, 0, 0],
   [1, 1, 2, -2, 2, 0, 0, 0, 0],
   [-2, 0, 2, 4, 2, 0, 0, 0, 0],
   [-1, 0, 4, 0, 2, 0, 0, 0, 0],
   [2, 0, 2, -2, 1, 0, 0, 0, 0],
   [1, 0, 0, -1, -1, 0, 0, 0, 0],
   [2, 0, 2, 2, 2, 0, 0, 0, 0],
   [1, 0, 0, 2, 1, 0, 0, 0, 0],
   [3, 0, 0, 0, 0, 0, 0, 0, 0],
   [0, 0, 2, -2, -1, 0, 0, 0, 0],
   [3, 0, 2, -2, 2, 0, 0, 0, 0],
   [0, 0, 4, -2, 2, 0, 0, 0, 0],
   [-1, 0, 0, 4, 0, 0, 0, 0, 0],
   [0, 1, 2, 0, 1, 0, 0, 0, 0],
   [0, 0, 2, -2, 3, 0, 0, 0, 0],
   [-2, 0, 0, 4, 0, 0, 0, 0, 0],
   [-1, -1, 0, 2, 1, 0, 0, 0, 0],
   [-2, 0, 2, 0, -1, 0, 0, 0, 0],
   [0, 0, 2, 0, -1, 0, 0, 0, 0],
   [0, -1, 2, 0, 1, 0, 0, 0, 0],
   [0, 1, 0, 0, 2, 0, 0, 0, 0],
   [0, 0, 2, -1, 2, 0, 0, 0, 0],
   [2, 1, 0, -2, 0, 0, 0, 0, 0],
   [0, 0, 2, 4, 2, 0, 0, 0, 0],
   [-1, -1, 0, 2, -1, 0, 0, 0, 0],
   [-1, 1, 0, 2, 0, 0, 0, 0, 0],
   [1, -1, 0, 0, 1, 0, 0, 0, 0],
   [0, -1, 2, -2, 0, 0, 0, 0, 0],
   [0, 1, 0, 0, -2, 0, 0, 0, 0],
   [1, -1, 2, 2, 2, 0, 0, 0, 0],
   [1, 0, 0, 2, -1, 0, 0, 0, 0],
   [-1, 1, 2, 2, 2, 0, 0, 0, 0],
   [3, 0, 2, 0, 1, 0, 0, 0, 0],
   [0, 1, 2, 2, 2, 0, 0, 0, 0],
   [1, 0, 2, -2, 0, 0, 0, 0, 0],
   [-1, 0, -2, 4, -1, 0, 0, 0, 0],
   [-1, -1, 2, 2, 1, 0, 0, 0, 0],
   [0, -1, 2, 2, 1, 0, 0, 0, 0],
   [2, -1, 2, 0, 2, 0, 0, 0, 0],
   [0, 0, 0, 2, 2, 0, 0, 0, 0],
   [1, -1, 2, 0, 1, 0, 0, 0, 0],
   [-1, 1, 2, 0, 2, 0, 0, 0, 0],
   [0, 1, 0, 2, 0, 0, 0, 0, 0],
   [0, 1, 2, -2, 0, 0, 0, 0, 0],
   [0, 3, 2, -2, 2, 0, 0, 0, 0],
   [0, 0, 0, 1, 1, 0, 0, 0, 0],
   [-1, 0, 2, 2, 0, 0, 0, 0, 0],
   [2, 1, 2, 0, 2, 0, 0, 0, 0],
   [1, 1, 0, 0, 1, 0, 0, 0, 0],
   [2, 0, 0, 2, 0, 0, 0, 0, 0],
   [1, 1, 2, 0, 1, 0, 0, 0, 0],
   [-1, 0, 0, 2, 2, 0, 0, 0, 0],
   [1, 0, -2, 2, 0, 0, 0, 0, 0],
   [0, -1, 0, 2, -1, 0, 0, 0, 0],
   [-1, 0, 1, 0, 2, 0, 0, 0, 0],
   [0, 1, 0, 1, 0, 0, 0, 0, 0],
   [1, 0, -2, 2, -2, 0, 0, 0, 0],
   [0, 0, 0, 1, -1, 0, 0, 0, 0],
   [1, -1, 0, 0, -1, 0, 0, 0, 0],
   [0, 0, 0, 4, 0, 0, 0, 0, 0],
   [1, -1, 0, 2, 0, 0, 0, 0, 0],
   [1, 0, 2, 1, 2, 0, 0, 0, 0],
   [1, 0, 2, -1, 2, 0, 0, 0, 0],
   [-1, 0, 0, 2, -2, 0, 0, 0, 0],
   [0, 0, 2, 1, 1, 0, 0, 0, 0],
   [-1, 0, 2, 0, -1, 0, 0, 0, 0],
   [-1, 0, 2, 4, 1, 0, 0, 0, 0],
   [0, 0, 2, 2, 0, 0, 0, 0, 0],
   [1, 1, 2, -2, 1, 0, 0, 0, 0],
   [0, 0, 1, 0, 1, 0, 0, 0, 0],
   [-1, 0, 2, -1, 1, 0, 0, 0, 0],
   [-2, 0, 2, 2, 1, 0, 0, 0, 0],
   [2, -1, 0, 0, 0, 0, 0, 0, 0],
   [4, 0, 2, 0, 2, 0, 0, 0, 0],
   [2, 1, 2, -2, 2, 0, 0, 0, 0],
   [0, 1, 2, 1, 2, 0, 0, 0, 0],
   [1, 0, 4, -2, 2, 0, 0, 0, 0],
   [1, 1, 0, 0, -1, 0, 0, 0, 0],
   [-2, 0, 2, 4, 1, 0, 0, 0, 0],
   [2, 0, 2, 0, 0, 0, 0, 0, 0],
   [-1, 0, 1, 0, 0, 0, 0, 0, 0],
   [1, 0, 0, 1, 0, 0, 0, 0, 0],
   [0, 1, 0, 2, 1, 0, 0, 0, 0],
   [-1, 0, 4, 0, 1, 0, 0, 0, 0],
   [-1, 0, 0, 4, 1, 0, 0, 0, 0],
   [2, 0, 2, 2, 1, 0, 0, 0, 0],
   [2, 1, 0, 0, 0, 0, 0, 0, 0],
   [0, 0, 5, -5, 5, -3, 0, 0, 0],
   [0, 0, 0, 0, 0, 0, 0, 2, 0],
   [0, 0, 1, -1, 1, 0, 0, -1, 0],
   [0, 0, -1, 1, -1, 1, 0, 0, 0],
   [0, 0, -1, 1, 0, 0, 2, 0, 0],
   [0, 0, 3, -3, 3, 0, 0, -1, 0],
   [0, 0, -8, 8, -7, 5, 0, 0, 0],
   [0, 0, -1, 1, -1, 0, 2, 0, 0],
   [0, 0, -2, 2, -2, 2, 0, 0, 0],
   [0, 0, -6, 6, -6, 4, 0, 0, 0],
   [0, 0, -2, 2, -2, 0, 8, -3, 0],
   [0, 0, 6, -6, 6, 0, -8, 3, 0],
   [0, 0, 4, -4, 4, -2, 0, 0, 0],
   [0, 0, -3, 3, -3, 2, 0, 0, 0],
   [0, 0, 4, -4, 3, 0, -8, 3, 0],
   [0, 0, -4, 4, -5, 0, 8, -3, 0],
   [0, 0, 0, 0, 0, 2, 0, 0, 0],
   [0, 0, -4, 4, -4, 3, 0, 0, 0],
   [0, 1, -1, 1, -1, 0, 0, 1, 0],
   [0, 0, 0, 0, 0, 0, 0, 1, 0],
   [0, 0, 1, -1, 1, 1, 0, 0, 0],
   [0, 0, 2, -2, 2, 0, -2, 0, 0],
   [0, -1, -7, 7, -7, 5, 0, 0, 0],
   [-2, 0, 2, 0, 2, 0, 0, -2, 0],
   [-2, 0, 2, 0, 1, 0, 0, -3, 0],
   [0, 0, 2, -2, 2, 0, 0, -2, 0],
   [0, 0, 1, -1, 1, 0, 0, 1, 0],
   [0, 0, 0, 0, 0, 0, 0, 0, 2],
   [0, 0, 0, 0, 0, 0, 0, 0, 1],
   [2, 0, -2, 0, -2, 0, 0, 3, 0],
   [0, 0, 1, -1, 1, 0, 0, -2, 0],
   [0, 0, -7, 7, -7, 5, 0, 0, 0]]"

text \<open>Nutation series: longitude.\<close>

definition psi :: "real list list" where
  "psi =
   [[3341.5, 17206241.8, 3.1, 17409.5],
   [-1716.8, -1317185.3, 1.4, -156.8],
   [285.7, -227667, 0.3, -23.5],
   [-68.6, -207448, 0, -21.4],
   [950.3, 147607.9, -2.3, -355],
   [-66.7, -51689.1, 0.2, 122.6],
   [-108.6, 71117.6, 0, 7],
   [35.6, -38740.2, 0.1, -36.2],
   [85.4, -30127.6, 0, -3.1],
   [9, 21583, 0.1, -50.3],
   [22.1, 12822.8, 0, 13.3],
   [3.4, 12350.8, 0, 1.3],
   [-21.1, 15699.4, 0, 1.6],
   [4.2, 6313.8, 0, 6.2],
   [-22.8, 5796.9, 0, 6.1],
   [15.7, -5961.1, 0, -0.6],
   [13.1, -5159.1, 0, -4.6],
   [1.8, 4592.7, 0, 4.5],
   [-17.5, 6336, 0, 0.7],
   [16.3, -3851.1, 0, -0.4],
   [-2.8, 4771.7, 0, 0.5],
   [13.8, -3099.3, 0, -0.3],
   [0.2, 2860.3, 0, 0.3],
   [1.4, 2045.3, 0, 2],
   [-8.6, 2922.6, 0, 0.3],
   [-7.7, 2587.9, 0, 0.2],
   [8.8, -1408.1, 0, 3.7],
   [1.4, 1517.5, 0, 1.5],
   [-1.9, -1579.7, 0, 7.7],
   [1.3, -2178.6, 0, -0.2],
   [-4.8, 1286.8, 0, 1.3],
   [6.3, 1267.2, 0, -4],
   [-1, 1669.3, 0, -8.3],
   [2.4, -1020, 0, -0.9],
   [4.5, -766.9, 0, 0],
   [-1.1, 756.5, 0, -1.7],
   [-1.4, -1097.3, 0, -0.5],
   [2.6, -663, 0, -0.6],
   [0.8, -714.1, 0, 1.6],
   [0.4, -629.9, 0, -0.6],
   [0.3, 580.4, 0, 0.6],
   [-1.6, 577.3, 0, 0.5],
   [-0.9, 644.4, 0, 0],
   [2.2, -534, 0, -0.5],
   [-2.5, 493.3, 0, 0.5],
   [-0.1, -477.3, 0, -2.4],
   [-0.9, 735, 0, -1.7],
   [0.7, 406.2, 0, 0.4],
   [-2.8, 656.9, 0, 0],
   [0.6, 358, 0, 2],
   [-0.7, 472.5, 0, -1.1],
   [-0.1, -300.5, 0, 0],
   [-1.2, 435.1, 0, -1],
   [1.8, -289.4, 0, 0],
   [0.6, -422.6, 0, 0],
   [0.8, -287.6, 0, 0.6],
   [-38.6, -392.3, 0, 0],
   [0.7, -281.8, 0, 0.6],
   [0.6, -405.7, 0, 0],
   [-1.2, 229, 0, 0.2],
   [1.1, -264.3, 0, 0.5],
   [-0.7, 247.9, 0, -0.5],
   [-0.2, 218, 0, 0.2],
   [0.6, -339, 0, 0.8],
   [-0.7, 198.7, 0, 0.2],
   [-1.5, 334, 0, 0],
   [0.1, 334, 0, 0],
   [-0.1, -198.1, 0, 0],
   [-106.6, 0, 0, 0],
   [-0.5, 165.8, 0, 0],
   [0, 134.8, 0, 0],
   [0.9, -151.6, 0, 0],
   [0, -129.7, 0, 0],
   [0.8, -132.8, 0, -0.1],
   [0.5, -140.7, 0, 0],
   [-0.1, 138.4, 0, 0],
   [0, 129, 0, -0.3],
   [0.5, -121.2, 0, 0],
   [-0.3, 114.5, 0, 0],
   [-0.1, 101.8, 0, 0],
   [-3.6, -101.9, 0, 0],
   [0.8, -109.4, 0, 0],
   [0.2, -97, 0, 0],
   [-0.7, 157.3, 0, 0],
   [0.2, -83.3, 0, 0],
   [-0.3, 93.3, 0, 0],
   [-0.1, 92.1, 0, 0],
   [-0.5, 133.6, 0, 0],
   [-0.1, 81.5, 0, 0],
   [0, 123.9, 0, 0],
   [-0.3, 128.1, 0, 0],
   [0.1, 74.1, 0, -0.3],
   [-0.2, -70.3, 0, 0],
   [-0.4, 66.6, 0, 0],
   [0.1, -66.7, 0, 0],
   [-0.7, 69.3, 0, -0.3],
   [0, -70.4, 0, 0],
   [-0.1, 101.5, 0, 0],
   [0.5, -69.1, 0, 0],
   [-0.2, 58.5, 0, 0.2],
   [0.1, -94.9, 0, 0.2],
   [0, 52.9, 0, -0.2],
   [0.1, 86.7, 0, -0.2],
   [-0.1, -59.2, 0, 0.2],
   [0.3, -58.8, 0, 0.1],
   [-0.3, 49, 0, 0],
   [-0.2, 56.9, 0, -0.1],
   [0.3, -50.2, 0, 0],
   [-0.2, 53.4, 0, -0.1],
   [0.1, -76.5, 0, 0],
   [-0.2, 45.3, 0, 0],
   [0.1, -46.8, 0, 0],
   [0.2, -44.6, 0, 0],
   [0.2, -48.7, 0, 0],
   [0.1, -46.8, 0, 0],
   [0.1, -42, 0, 0],
   [0, 46.4, 0, -0.1],
   [0.2, -67.3, 0, 0.1],
   [0, -65.8, 0, 0.2],
   [-0.1, -43.9, 0, 0.3],
   [0, -38.9, 0, 0],
   [-0.3, 63.9, 0, 0],
   [-0.2, 41.2, 0, 0],
   [0, -36.1, 0, 0.2],
   [-0.3, 58.5, 0, 0],
   [-0.1, 36.1, 0, 0],
   [0, -39.7, 0, 0],
   [0.1, -57.7, 0, 0],
   [-0.2, 33.4, 0, 0],
   [36.4, 0, 0, 0],
   [-0.1, 55.7, 0, -0.1],
   [0.1, -35.4, 0, 0],
   [0.1, -31, 0, 0],
   [-0.1, 30.1, 0, 0],
   [-0.3, 49.2, 0, 0],
   [-0.2, 49.1, 0, 0],
   [-0.1, 33.6, 0, 0],
   [0.1, -33.5, 0, 0],
   [0.1, -31, 0, 0],
   [-0.1, 28, 0, 0],
   [0.1, -25.2, 0, 0],
   [0.1, -26.2, 0, 0],
   [-0.2, 41.5, 0, 0],
   [0, 24.5, 0, 0.1],
   [-16.2, 0, 0, 0],
   [0, -22.3, 0, 0],
   [0, 23.1, 0, 0],
   [-0.1, 37.5, 0, 0],
   [0.2, -25.7, 0, 0],
   [0, 25.2, 0, 0],
   [0.1, -24.5, 0, 0],
   [-0.1, 24.3, 0, 0],
   [0.1, -20.7, 0, 0],
   [0.1, -20.8, 0, 0],
   [-0.2, 33.4, 0, 0],
   [32.9, 0, 0, 0],
   [0.1, -32.6, 0, 0],
   [0, 19.9, 0, 0],
   [-0.1, 19.6, 0, 0],
   [0, -18.7, 0, 0],
   [0.1, -19, 0, 0],
   [0.1, -28.6, 0, 0],
   [4, 178.8, -11.8, 0.3],
   [39.8, -107.3, -5.6, -1],
   [9.9, 164, -4.1, 0.1],
   [-4.8, -135.3, -3.4, -0.1],
   [50.5, 75, 1.4, -1.2],
   [-1.1, -53.5, 1.3, 0],
   [-45, -2.4, -0.4, 6.6],
   [-11.5, -61, -0.9, 0.4],
   [4.4, -68.4, -3.4, 0],
   [7.7, -47.1, -4.7, -1],
   [-42.9, -12.6, -1.2, 4.2],
   [-42.8, 12.7, -1.2, -4.2],
   [-7.6, -44.1, 2.1, -0.5],
   [-64.1, 1.7, 0.2, 4.5],
   [36.4, -10.4, 1, 3.5],
   [35.6, 10.2, 1, -3.5],
   [-1.7, 39.5, 2, 0],
   [50.9, -8.2, -0.8, -5],
   [0, 52.3, 1.2, 0],
   [-42.9, -17.8, 0.4, 0],
   [2.6, 34.3, 0.8, 0],
   [-0.8, -48.6, 2.4, -0.1],
   [-4.9, 30.5, 3.7, 0.7],
   [0, -43.6, 2.1, 0],
   [0, -25.4, 1.2, 0],
   [2, 40.9, -2, 0],
   [-2.1, 26.1, 0.6, 0],
   [22.6, -3.2, -0.5, -0.5],
   [-7.6, 24.9, -0.4, -0.2],
   [-6.2, 34.9, 1.7, 0.3],
   [2, 17.4, -0.4, 0.1],
   [-3.9, 20.5, 2.4, 0.6]]"

text \<open>Nutation series: obliquity.\<close>

definition eps :: "real list list" where
  "eps =
   [[9205365.8, -1506.2, 885.7, -0.2],
   [573095.9, -570.2, -305, -0.3],
   [97845.5, 147.8, -48.8, -0.2],
   [-89753.6, 28, 46.9, 0],
   [7406.7, -327.1, -18.2, 0.8],
   [22442.3, -22.3, -67.6, 0],
   [-683.6, 46.8, 0, 0],
   [20070.7, 36, 1.6, 0],
   [12893.8, 39.5, -6.2, 0],
   [-9593.2, 14.4, 30.2, -0.1],
   [-6899.5, 4.8, -0.6, 0],
   [-5332.5, -0.1, 2.7, 0],
   [-125.2, 10.5, 0, 0],
   [-3323.4, -0.9, -0.3, 0],
   [3142.3, 8.9, 0.3, 0],
   [2552.5, 7.3, -1.2, 0],
   [2634.4, 8.8, 0.2, 0],
   [-2424.4, 1.6, -0.4, 0],
   [-123.3, 3.9, 0, 0],
   [1642.4, 7.3, -0.8, 0],
   [47.9, 3.2, 0, 0],
   [1321.2, 6.2, -0.6, 0],
   [-1234.1, -0.3, 0.6, 0],
   [-1076.5, -0.3, 0, 0],
   [-61.6, 1.8, 0, 0],
   [-55.4, 1.6, 0, 0],
   [856.9, -4.9, -2.1, 0],
   [-800.7, -0.1, 0, 0],
   [685.1, -0.6, -3.8, 0],
   [-16.9, -1.5, 0, 0],
   [695.7, 1.8, 0, 0],
   [642.2, -2.6, -1.6, 0],
   [13.3, 1.1, -0.1, 0],
   [521.9, 1.6, 0, 0],
   [325.8, 2, -0.1, 0],
   [-325.1, -0.5, 0.9, 0],
   [10.1, 0.3, 0, 0],
   [334.5, 1.6, 0, 0],
   [307.1, 0.4, -0.9, 0],
   [327.2, 0.5, 0, 0],
   [-304.6, -0.1, 0, 0],
   [304, 0.6, 0, 0],
   [-276.8, -0.5, 0.1, 0],
   [268.9, 1.3, 0, 0],
   [271.8, 1.1, 0, 0],
   [271.5, -0.4, -0.8, 0],
   [-5.2, 0.5, 0, 0],
   [-220.5, 0.1, 0, 0],
   [-20.1, 0.3, 0, 0],
   [-191, 0.1, 0.5, 0],
   [-4.1, 0.3, 0, 0],
   [130.6, -0.1, 0, 0],
   [3, 0.3, 0, 0],
   [122.9, 0.8, 0, 0],
   [3.7, -0.3, 0, 0],
   [123.1, 0.4, -0.3, 0],
   [-52.7, 15.3, 0, 0],
   [120.7, 0.3, -0.3, 0],
   [4, -0.3, 0, 0],
   [126.5, 0.5, 0, 0],
   [112.7, 0.5, -0.3, 0],
   [-106.1, -0.3, 0.3, 0],
   [-112.9, -0.2, 0, 0],
   [3.6, -0.2, 0, 0],
   [107.4, 0.3, 0, 0],
   [-10.9, 0.2, 0, 0],
   [-0.9, 0, 0, 0],
   [85.4, 0, 0, 0],
   [0, -88.8, 0, 0],
   [-71, -0.2, 0, 0],
   [-70.3, 0, 0, 0],
   [64.5, 0.4, 0, 0],
   [69.8, 0, 0, 0],
   [66.1, 0.4, 0, 0],
   [-61, -0.2, 0, 0],
   [-59.5, -0.1, 0, 0],
   [-55.6, 0, 0.2, 0],
   [51.7, 0.2, 0, 0],
   [-49, -0.1, 0, 0],
   [-52.7, -0.1, 0, 0],
   [-49.6, 1.4, 0, 0],
   [46.3, 0.4, 0, 0],
   [49.6, 0.1, 0, 0],
   [-5.1, 0.1, 0, 0],
   [-44, -0.1, 0, 0],
   [-39.9, -0.1, 0, 0],
   [-39.5, -0.1, 0, 0],
   [-3.9, 0.1, 0, 0],
   [-42.1, -0.1, 0, 0],
   [-17.2, 0.1, 0, 0],
   [-2.3, 0.1, 0, 0],
   [-39.2, 0, 0, 0],
   [-38.4, 0.1, 0, 0],
   [36.8, 0.2, 0, 0],
   [34.6, 0.1, 0, 0],
   [-32.7, 0.3, 0, 0],
   [30.4, 0, 0, 0],
   [0.4, 0.1, 0, 0],
   [29.3, 0.2, 0, 0],
   [31.6, 0.1, 0, 0],
   [0.8, -0.1, 0, 0],
   [-27.9, 0, 0, 0],
   [2.9, 0, 0, 0],
   [-25.3, 0, 0, 0],
   [25, 0.1, 0, 0],
   [27.5, 0.1, 0, 0],
   [-24.4, -0.1, 0, 0],
   [24.9, 0.2, 0, 0],
   [-22.8, -0.1, 0, 0],
   [0.9, -0.1, 0, 0],
   [24.4, 0.1, 0, 0],
   [23.9, 0.1, 0, 0],
   [22.5, 0.1, 0, 0],
   [20.8, 0.1, 0, 0],
   [20.1, 0, 0, 0],
   [21.5, 0.1, 0, 0],
   [-20, 0, 0, 0],
   [1.4, 0, 0, 0],
   [-0.2, -0.1, 0, 0],
   [19, 0, -0.1, 0],
   [20.5, 0, 0, 0],
   [-2, 0, 0, 0],
   [-17.6, -0.1, 0, 0],
   [19, 0, 0, 0],
   [-2.4, 0, 0, 0],
   [-18.4, -0.1, 0, 0],
   [17.1, 0, 0, 0],
   [0.4, 0, 0, 0],
   [18.4, 0.1, 0, 0],
   [0, 17.4, 0, 0],
   [-0.6, 0, 0, 0],
   [-15.4, 0, 0, 0],
   [-16.8, -0.1, 0, 0],
   [16.3, 0, 0, 0],
   [-2, 0, 0, 0],
   [-1.5, 0, 0, 0],
   [-14.3, -0.1, 0, 0],
   [14.4, 0, 0, 0],
   [-13.4, 0, 0, 0],
   [-14.3, -0.1, 0, 0],
   [-13.7, 0, 0, 0],
   [13.1, 0.1, 0, 0],
   [-1.7, 0, 0, 0],
   [-12.8, 0, 0, 0],
   [0, -14.4, 0, 0],
   [12.4, 0, 0, 0],
   [-12, 0, 0, 0],
   [-0.8, 0, 0, 0],
   [10.9, 0.1, 0, 0],
   [-10.8, 0, 0, 0],
   [10.5, 0, 0, 0],
   [-10.4, 0, 0, 0],
   [-11.2, 0, 0, 0],
   [10.5, 0.1, 0, 0],
   [-1.4, 0, 0, 0],
   [0, 0.1, 0, 0],
   [0.7, 0, 0, 0],
   [-10.3, 0, 0, 0],
   [-10, 0, 0, 0],
   [9.6, 0, 0, 0],
   [9.4, 0.1, 0, 0],
   [0.6, 0, 0, 0],
   [-87.7, 4.4, -0.4, -6.3],
   [46.3, 22.4, 0.5, -2.4],
   [15.6, -3.4, 0.1, 0.4],
   [5.2, 5.8, 0.2, -0.1],
   [-30.1, 26.9, 0.7, 0],
   [23.2, -0.5, 0, 0.6],
   [1, 23.2, 3.4, 0],
   [-12.2, -4.3, 0, 0],
   [-2.1, -3.7, -0.2, 0.1],
   [-18.6, -3.8, -0.4, 1.8],
   [5.5, -18.7, -1.8, -0.5],
   [-5.5, -18.7, 1.8, -0.5],
   [18.4, -3.6, 0.3, 0.9],
   [-0.6, 1.3, 0, 0],
   [-5.6, -19.5, 1.9, 0],
   [5.5, -19.1, -1.9, 0],
   [-17.3, -0.8, 0, 0.9],
   [-3.2, -8.3, -0.8, 0.3],
   [-0.1, 0, 0, 0],
   [-5.4, 7.8, -0.3, 0],
   [-14.8, 1.4, 0, 0.3],
   [-3.8, 0.4, 0, -0.2],
   [12.6, 3.2, 0.5, -1.5],
   [0.1, 0, 0, 0],
   [-13.6, 2.4, -0.1, 0],
   [0.9, 1.2, 0, 0],
   [-11.9, -0.5, 0, 0.3],
   [0.4, 12, 0.3, -0.2],
   [8.3, 6.1, -0.1, 0.1],
   [0, 0, 0, 0],
   [0.4, -10.8, 0.3, 0],
   [9.6, 2.2, 0.3, -1.2]]"

text \<open>The number of terms in the model is computed from the size of \<open>na\<close>:
  \<open>sizeof ( na ) / sizeof ( int ) / 9\<close>, with integers of four bytes.\<close>

definition sizeof_int :: nat where
  "sizeof_int = 4"

definition nterms :: nat where
  "nterms = length (concat na) * sizeof_int div sizeof_int div 9"

subsection \<open>\<open>slaNutc\<close>: the evaluation of the series\<close>

text \<open>The two accumulators of the loop, and a count of the iterations run so far; the count
  is not a variable of the routine, it records how often the body was entered.\<close>

record nutc_state =
  acc_dp :: real
  acc_de :: real
  acc_iters :: nat

text \<open>The fundamental angles \<open>[el, elp, f, d, om, ve, ma, ju, sa]\<close> at \<open>t\<close> Julian centuries
  from J2000.\<close>

definition nutc_angles :: "real \<Rightarrow> real list" where
  "nutc_angles t =
     (let el = 134.96340251 * DD2R +
                 fmod (t * (1717915923.2178 +
                       t * (31.8792 +
                       t * (0.051635 +
                       t * (- 0.00024470))))) TURNAS * DAS2R;
          elp = 357.52910918 * DD2R +
                 fmod (t * (129596581.0481 +
                       t * (- 0.5532 +
                       t * (0.000136 +
                       t * (- 0.00001149))))) TURNAS * DAS2R;
          f = 93.27209062 * DD2R +
                 fmod (t * (1739527262.8478 +
                       t * (- 12.7512 +
                       t * (- 0.001037 +
                       t * (0.00000417))))) TURNAS * DAS2R;
          d = 297.85019547 * DD2R +
                 fmod (t * (1602961601.2090 +
                       t * (- 6.3706 +
                       t * (0.006539 +
                       t * (- 0.00003169))))) TURNAS * DAS2R;
          om = 125.04455501 * DD2R +
                 fmod (t * (- 6962890.5431 +
                       t * (7.4722 +
                       t * (0.007702 +
                       t * (- 0.00005939))))) TURNAS * DAS2R;
          ve = 181.97980085 * DD2R + fmod (210664136.433548 * t) TURNAS * DAS2R;
          ma = 355.43299958 * DD2R + fmod (68905077.493988 * t) TURNAS * DAS2R;
          ju = 34.35151874 * DD2R + fmod (10925660.377991 * t) TURNAS * DAS2R;
          sa = 50.07744430 * DD2R + fmod (4399609.855732 * t) TURNAS * DAS2R
      in [el, elp, f, d, om, ve, ma, ju, sa])"

text \<open>The body of the loop for the term of index \<open>j\<close>.\<close>

definition nutc_term :: "real \<Rightarrow> real list \<Rightarrow> nat \<Rightarrow> nutc_state \<Rightarrow> nutc_state" where
  "nutc_term t ang j st =
     (let theta = real_of_int (na ! j ! 0) * (ang ! 0) +
                  real_of_int (na ! j ! 1) * (ang ! 1) +
                  real_of_int (na ! j ! 2) * (ang ! 2) +
                  real_of_int (na ! j ! 3) * (ang ! 3) +
                  real_of_int (na ! j ! 4) * (ang ! 4) +
                  real_of_int (na ! j ! 5) * (ang ! 5) +
                  real_of_int (na ! j ! 6) * (ang ! 6) +
                  real_of_int (na ! j ! 7) * (ang ! 7) +
                  real_of_int (na ! j ! 8) * (ang ! 8);
          c = cos theta;
          s = sin theta
      in \<lparr>acc_dp = acc_dp st + ((psi ! j ! 0 + psi ! j ! 2 * t) * c +
                              (psi ! j ! 1 + psi ! j ! 3 * t) * s),
          acc_de = acc_de st + ((eps ! j ! 0 + eps ! j ! 2 * t) * c +
                              (eps ! j ! 1 + eps ! j ! 3 * t) * s),
          acc_iters = Suc (acc_iters st)\<rparr>)"

text \<open>The loop \<open>for ( j = nterms - 1; j >= 0; j-- )\<close>: the third argument is \<open>j + 1\<close>, so
  that \<open>0\<close> is the exit of the loop and \<open>Suc j\<close> runs the body at \<open>j\<close>.\<close>

fun nutc_loop :: "real \<Rightarrow> real list \<Rightarrow> nat \<Rightarrow> nutc_state \<Rightarrow> nutc_state" where
  "nutc_loop t ang 0 st = st"
| "nutc_loop t ang (Suc j) st = nutc_loop t ang j (nutc_term t ang j st)"

text \<open>The state at the exit of the loop: the geodesic nutation seeds \<open>dp\<close>, and \<open>de\<close>
  starts at zero.\<close>

definition nutc_series :: "real \<Rightarrow> nutc_state" where
  "nutc_series date =
     (let t = (date - DJM0) / DJC;
          ang = nutc_angles t;
          elp = ang ! 1;
          dp = - 153.1 * sin elp - 1.9 * sin (2 * elp);
          de = 0
      in nutc_loop t ang nterms \<lparr>acc_dp = dp, acc_de = de, acc_iters = 0\<rparr>)"

text \<open>The result is \<open>(dpsi, deps, eps0)\<close>.\<close>

definition slaNutc :: "real \<Rightarrow> real \<times> real \<times> real" where
  "slaNutc date =
     (let t = (date - DJM0) / DJC;
          st = nutc_series date;
          dp = acc_dp st;
          de = acc_de st
      in ((dp * 0.000001 - 0.042888 - 0.29856 * t) * DAS2R,
          (de * 0.000001 - 0.005171 - 0.02408 * t) * DAS2R,
          (84381.412 +
            (- 46.80927 +
             (- 0.000152 +
              (0.0019989 +
               (- 0.00000051 +
                (- 0.000000025) * t) * t) * t) * t) * t) * DAS2R))"

section \<open>Planetary ephemeris model\<close>

subsection \<open>\<open>slaPlanet\<close>: constants and tables for Mercury through Neptune\<close>

text \<open>Gaussian gravitational constant.\<close>

definition GCON :: real where
  "GCON = 0.01720209895"

text \<open>Seconds per Julian century.\<close>

definition SPC :: real where
  "SPC = 36525 * 86400"

text \<open>Sine and cosine of the J2000 mean obliquity.\<close>

definition SE :: real where
  "SE = 0.3977771559319137"

definition CE :: real where
  "CE = 0.9174820620691818"

text \<open>Planetary inverse masses.\<close>

definition amas :: "real list" where
  "amas =
   [6023600, 408523.5, 328900.5, 3098710, 1047.355, 3498.5, 22869, 19314]"

text \<open>The mean Keplerian elements, limited to \<open>T^2\<close> terms: semi-major axis \<open>a\<close>, mean
  longitude \<open>dlm\<close>, eccentricity \<open>e\<close>, longitude of the perihelion \<open>pi\<close>, inclination
  \<open>dinc\<close> and longitude of the ascending node \<open>omega\<close>. The tables \<open>a\<close>, \<open>e\<close> and \<open>pi\<close>
  are \<open>a_tab\<close>, \<open>e_tab\<close> and \<open>pi_tab\<close> here.\<close>

definition a_tab :: "real list list" where
  "a_tab =
   [[0.3870983098, 0, 0],
   [0.72332982, 0, 0],
   [1.0000010178, 0, 0],
   [1.5236793419, 0.0000000003, 0],
   [5.2026032092, 0.0000019132, -0.0000000039],
   [9.5549091915, -0.0000213896, 0.0000000444],
   [19.2184460618, -0.0000003716, 0.0000000979],
   [30.1103868694, -0.0000016635, 0.0000000686]]"

definition dlm :: "real list list" where
  "dlm =
   [[252.25090552, 5381016286.88982, -1.92789],
   [181.97980085, 2106641364.33548, 0.59381],
   [100.46645683, 1295977422.83429, -2.04411],
   [355.43299958, 689050774.93988, 0.94264],
   [34.35151874, 109256603.77991, -30.60378],
   [50.0774443, 43996098.55732, 75.61614],
   [314.05500511, 15424811.93933, -1.75083],
   [304.34866548, 7865503.20744, 0.21103]]"

definition e_tab :: "real list list" where
  "e_tab =
   [[0.2056317526, 0.0002040653, -0.0000028349],
   [0.0067719164, -0.0004776521, 0.0000098127],
   [0.0167086342, -0.0004203654, -0.0000126734],
   [0.0934006477, 0.0009048438, -0.0000080641],
   [0.0484979255, 0.0016322542, -0.0000471366],
   [0.0555481426, -0.0034664062, -0.0000643639],
   [0.0463812221, -0.0002729293, 0.0000078913],
   [0.009455747, 0.0000603263, 0]]"

definition pi_tab :: "real list list" where
  "pi_tab =
   [[77.45611904, 5719.1159, -4.83016],
   [131.563703, 175.4864, -498.48184],
   [102.93734808, 11612.3529, 53.27577],
   [336.06023395, 15980.45908, -62.328],
   [14.33120687, 7758.75163, 259.95938],
   [93.05723748, 20395.49439, 190.25952],
   [173.00529106, 3215.56238, -34.09288],
   [48.12027554, 1050.71912, 27.39717]]"

definition dinc :: "real list list" where
  "dinc =
   [[7.00498625, -214.25629, 0.28977],
   [3.39466189, -30.84437, -11.67836],
   [0, 469.97289, -3.35053],
   [1.84972648, -293.31722, -8.1183],
   [1.30326698, -71.5589, 11.95297],
   [2.48887878, 91.85195, -17.66225],
   [0.77319689, -60.72723, 1.25759],
   [1.76995259, 8.12333, 0.08135]]"

definition omega :: "real list list" where
  "omega =
   [[48.33089304, -4515.21727, -31.79892],
   [76.67992019, -10008.48154, -51.32614],
   [174.87317577, -8679.27034, 15.34191],
   [49.55809321, -10620.90088, -230.57416],
   [100.46440702, 6362.03561, 326.52178],
   [113.66550252, -9240.19942, -66.23743],
   [74.00595701, 2669.15033, 145.93964],
   [131.78405702, -221.94322, -0.78728]]"

text \<open>Trigonometric terms to be added to the mean elements of the semi-major axes.\<close>

definition dkp :: "real list list" where
  "dkp =
   [[69613, 75645, 88306, 59899, 15746, 71087, 142173, 3086, 0],
   [21863, 32794, 26934, 10931, 26250, 43725, 53867, 28939, 0],
   [16002, 21863, 32004, 10931, 14529, 16368, 15318, 32794, 0],
   [6345, 7818, 15636, 7077, 8184, 14163, 1107, 4872, 0],
   [1760, 1454, 1167, 880, 287, 2640, 19, 2047, 1454],
   [574, 0, 880, 287, 19, 1760, 1167, 306, 574],
   [204, 0, 177, 1265, 4, 385, 200, 208, 204],
   [0, 102, 106, 4, 98, 1367, 487, 204, 0]]"

definition ca :: "real list list" where
  "ca =
   [[4, -13, 11, -9, -9, -3, -1, 4, 0],
   [-156, 59, -42, 6, 19, -20, -10, -12, 0],
   [64, -152, 62, -8, 32, -41, 19, -11, 0],
   [124, 621, -145, 208, 54, -57, 30, 15, 0],
   [-23437, -2634, 6601, 6259, -1507, -1821, 2620, -2115, -1489],
   [62911, -119919, 79336, 17814, -24241, 12068, 8306, -4893, 8902],
   [389061, -262125, -44088, 8387, -22976, -2093, -615, -9720, 6633],
   [-412235, -157046, -31430, 37817, -9740, -13, -7449, 9644, 0]]"

definition sa :: "real list list" where
  "sa =
   [[-29, -1, 9, 6, -6, 5, 4, 0, 0],
   [-48, -125, -26, -37, 18, -13, -20, -2, 0],
   [-150, -46, 68, 54, 14, 24, -28, 22, 0],
   [-621, 532, -694, -20, 192, -94, 71, -73, 0],
   [-14614, -19828, -5869, 1881, -4372, -2255, 782, 930, 913],
   [139737, 0, 24667, 51123, -5102, 7429, -4095, -1976, -9566],
   [-138081, 0, 37205, -49039, -41901, -33872, -27037, -12474, 18797],
   [0, 28492, 133236, 69654, 52322, -49577, -26430, -3593, 0]]"

text \<open>Trigonometric terms to be added to the mean elements of the mean longitudes.\<close>

definition dkq :: "real list list" where
  "dkq =
   [[3086, 15746, 69613, 59899, 75645, 88306, 12661, 2658, 0, 0],
   [21863, 32794, 10931, 73, 4387, 26934, 1473, 2157, 0, 0],
   [10, 16002, 21863, 10931, 1473, 32004, 4387, 73, 0, 0],
   [10, 6345, 7818, 1107, 15636, 7077, 8184, 532, 10, 0],
   [19, 1760, 1454, 287, 1167, 880, 574, 2640, 19, 1454],
   [19, 574, 287, 306, 1760, 12, 31, 38, 19, 574],
   [4, 204, 177, 8, 31, 200, 1265, 102, 4, 204],
   [4, 102, 106, 8, 98, 1367, 487, 204, 4, 102]]"

definition clo :: "real list list" where
  "clo =
   [[21, -95, -157, 41, -5, 42, 23, 30, 0, 0],
   [-160, -313, -235, 60, -74, -76, -27, 34, 0, 0],
   [-325, -322, -79, 232, -52, 97, 55, -41, 0, 0],
   [2268, -979, 802, 602, -668, -33, 345, 201, -55, 0],
   [7610, -4997, -7689, -5841, -2617, 1115, -748, -607, 6074, 354],
   [-18549, 30125, 20012, -730, 824, 23, 1289, -352, -14767, -2062],
   [-135245, -14594, 4197, -4030, -5630, -2898, 2540, -306, 2939, 1986],
   [89948, 2103, 8963, 2695, 3682, 1648, 866, -154, -1963, -283]]"

definition slo :: "real list list" where
  "slo =
   [[-342, 136, -23, 62, 66, -52, -33, 17, 0, 0],
   [524, -149, -35, 117, 151, 122, -71, -62, 0, 0],
   [-105, -137, 258, 35, -116, -88, -112, -80, 0, 0],
   [854, -205, -936, -240, 140, -341, -97, -232, 536, 0],
   [-56980, 8016, 1012, 1448, -3024, -3710, 318, 503, 3767, 577],
   [138606, -13478, -4964, 1441, -1319, -1482, 427, 1236, -9167, -1918],
   [71234, -41116, 5334, -4935, -1848, 66, 434, -1748, 3780, -701],
   [-47645, 11647, 2166, 3194, 679, 0, -244, -419, -2531, 48]]"

subsection \<open>\<open>slaPlanet\<close>: constants and table for Pluto\<close>

definition dj0 :: real where
  "dj0 = 34.35"

definition djd :: real where
  "djd = 3034.9057"

definition ds0 :: real where
  "ds0 = 50.08"

definition dsd :: real where
  "dsd = 1222.1138"

definition dp0 :: real where
  "dp0 = 238.96"

definition dpd :: real where
  "dpd = 144.9600"

definition dl0 :: real where
  "dl0 = 238.956785"

definition dld0 :: real where
  "dld0 = 144.96"

definition db0 :: real where
  "db0 = - 3.908202"

definition dr0 :: real where
  "dr0 = 40.7247248"

text \<open>Coefficients for the periodic terms (Meeus's Table 36.A): a \<open>struct tm\<close> is the tuple
  \<open>(ij, is, ip, dlbr)\<close>, and \<open>dlbr\<close> holds the pairs \<open>(a, b)\<close> of sine and cosine
  components for longitude, latitude and radius vector.\<close>

definition term_tab :: "(int \<times> int \<times> int \<times> (real \<times> real) list) list" where
  "term_tab =
   [(0, 0, 1, [(-19.798886, 19.848454), (-5.453098, -14.974876), (6.6867334, 6.8955876)]),
    (0, 0, 2, [(0.897499, -4.955707), (3.527363, 1.672673), (-1.1826086, -0.0333765)]),
    (0, 0, 3, [(0.61082, 1.210521), (-1.050939, 0.327763), (0.1593657, -0.1439953)]),
    (0, 0, 4, [(-0.341639, -0.189719), (0.178691, -0.291925), (-0.0018948, 0.0482443)]),
    (0, 0, 5, [(0.129027, -0.034863), (0.018763, 0.100448), (-0.0066634, -0.0085576)]),
    (0, 0, 6, [(-0.038215, 0.031061), (-0.030594, -0.025838), (0.0030841, -0.0005765)]),
    (0, 1, -1, [(0.020349, -0.009886), (0.004965, 0.011263), (-0.000614, 0.0022254)]),
    (0, 1, 0, [(-0.004045, -0.004904), (0.00031, -0.000132), (0.0004434, 0.0004443)]),
    (0, 1, 1, [(-0.005885, -0.003238), (0.002036, -0.000947), (-0.0001518, 0.0000641)]),
    (0, 1, 2, [(-0.003812, 0.003011), (-0.000002, -0.000674), (-0.0000005, 0.0000792)]),
    (0, 1, 3, [(-0.000601, 0.003468), (-0.000329, -0.000563), (0.0000518, 0.0000518)]),
    (0, 2, -2, [(0.001237, 0.000463), (-0.000064, 0.000039), (-0.0000013, -0.0000221)]),
    (0, 2, -1, [(0.001086, -0.000911), (-0.000094, 0.00021), (0.0000837, -0.0000494)]),
    (0, 2, 0, [(0.000595, -0.001229), (-0.000008, -0.00016), (-0.0000281, 0.0000616)]),
    (1, -1, 0, [(0.002484, -0.000485), (-0.000177, 0.000259), (0.000026, -0.0000395)]),
    (1, -1, 1, [(0.000839, -0.001414), (0.000017, 0.000234), (-0.0000191, -0.0000396)]),
    (1, 0, -3, [(-0.000964, 0.001059), (0.000582, -0.000285), (-0.0003218, 0.000037)]),
    (1, 0, -2, [(-0.002303, -0.001038), (-0.000298, 0.000692), (0.0008019, -0.0007869)]),
    (1, 0, -1, [(0.007049, 0.000747), (0.000157, 0.000201), (0.0000105, 0.0045637)]),
    (1, 0, 0, [(0.001179, -0.000358), (0.000304, 0.000825), (0.0008623, 0.0008444)]),
    (1, 0, 1, [(0.000393, -0.000063), (-0.000124, -0.000029), (-0.0000896, -0.0000801)]),
    (1, 0, 2, [(0.000111, -0.000268), (0.000015, 0.000008), (0.0000208, -0.0000122)]),
    (1, 0, 3, [(-0.000052, -0.000154), (0.000007, 0.000015), (-0.0000133, 0.0000065)]),
    (1, 0, 4, [(-0.000078, -0.00003), (0.000002, 0.000002), (-0.0000016, 0.0000001)]),
    (1, 1, -3, [(-0.000034, -0.000026), (0.000004, 0.000002), (-0.0000022, 0.0000007)]),
    (1, 1, -2, [(-0.000043, 0.000001), (0.000003, 0), (-0.0000008, 0.0000016)]),
    (1, 1, -1, [(-0.000015, 0.000021), (0.000001, -0.000001), (0.0000002, 0.0000009)]),
    (1, 1, 0, [(-0.000001, 0.000015), (0, -0.000002), (0.0000012, 0.0000005)]),
    (1, 1, 1, [(0.000004, 0.000007), (0.000001, 0), (0.0000001, -0.0000003)]),
    (1, 1, 3, [(0.000001, 0.000005), (0.000001, -0.000001), (0.0000001, 0)]),
    (2, 0, -6, [(0.000008, 0.000003), (-0.000002, -0.000003), (0.0000009, 0.0000005)]),
    (2, 0, -5, [(-0.000003, 0.000006), (0.000001, 0.000002), (0.0000002, -0.0000001)]),
    (2, 0, -4, [(0.000006, -0.000013), (-0.000008, 0.000002), (0.0000014, 0.000001)]),
    (2, 0, -3, [(0.00001, 0.000022), (0.00001, -0.000007), (-0.0000065, 0.0000012)]),
    (2, 0, -2, [(-0.000057, -0.000032), (0, 0.000021), (0.0000126, -0.0000233)]),
    (2, 0, -1, [(0.000157, -0.000046), (0.000008, 0.000005), (0.000027, 0.0001068)]),
    (2, 0, 0, [(0.000012, -0.000018), (0.000013, 0.000016), (0.0000254, 0.0000155)]),
    (2, 0, 1, [(-0.000004, 0.000008), (-0.000002, -0.000003), (-0.0000026, -0.0000002)]),
    (2, 0, 2, [(-0.000005, 0), (0, 0), (0.0000007, 0)]),
    (2, 0, 3, [(0.000003, 0.000004), (0, 0.000001), (-0.0000011, 0.0000004)]),
    (3, 0, -2, [(-0.000001, -0.000001), (0, 0.000001), (0.0000004, -0.0000014)]),
    (3, 0, -1, [(0.000006, -0.000003), (0, 0), (0.0000018, 0.0000035)]),
    (3, 0, 0, [(-0.000001, -0.000002), (0, 0.000001), (0.0000013, 0.0000003)])]"

subsection \<open>\<open>slaPlanet\<close>: Mercury through Neptune\<close>

text \<open>The elements \<open>(di, dom, dpe, da, de, dl, dm)\<close> of the body of index \<open>ip\<close> at \<open>t\<close>
  Julian millennia from J2000, as lines 550 to 582 compute them.\<close>

definition planet_elements ::
    "real \<Rightarrow> nat \<Rightarrow> real \<times> real \<times> real \<times> real \<times> real \<times> real \<times> real" where
  "planet_elements t ip =
     (let da = a_tab ! ip ! 0 + (a_tab ! ip ! 1 + a_tab ! ip ! 2 * t) * t;
          dl = (3600 * dlm ! ip ! 0 + (dlm ! ip ! 1 + dlm ! ip ! 2 * t) * t) * DAS2R;
          de = e_tab ! ip ! 0 + (e_tab ! ip ! 1 + e_tab ! ip ! 2 * t) * t;
          dpe = dmod ((3600 * pi_tab ! ip ! 0 + (pi_tab ! ip ! 1 + pi_tab ! ip ! 2 * t) * t)
                        * DAS2R) D2PI;
          di = (3600 * dinc ! ip ! 0 + (dinc ! ip ! 1 + dinc ! ip ! 2 * t) * t) * DAS2R;
          dom = dmod ((3600 * omega ! ip ! 0 + (omega ! ip ! 1 + omega ! ip ! 2 * t) * t)
                        * DAS2R) D2PI;
          dmu = 0.35953620 * t;
          (da, dl) =
            fold (\<lambda>j (da, dl).
                    let arga = dkp ! ip ! j * dmu;
                        argl = dkq ! ip ! j * dmu
                    in (da + (ca ! ip ! j * cos arga + sa ! ip ! j * sin arga) * 0.0000001,
                        dl + (clo ! ip ! j * cos argl + slo ! ip ! j * sin argl) * 0.0000001))
                 [0 ..< 8] (da, dl);
          arga = dkp ! ip ! 8 * dmu;
          da = da + t * (ca ! ip ! 8 * cos arga + sa ! ip ! 8 * sin arga) * 0.0000001;
          dl = fold (\<lambda>j dl.
                       let argl = dkq ! ip ! j * dmu
                       in dl + t * (clo ! ip ! j * cos argl + slo ! ip ! j * sin argl)
                                 * 0.0000001)
                    [8 ..< 10] dl;
          dl = dmod dl D2PI;
          dm = GCON * sqrt ((1 + 1 / amas ! ip) / (da * da * da))
      in (di, dom, dpe, da, de, dl, dm))"

text \<open>The elements to state collaborator \<open>slaPlanel\<close> is not part of these sources; it is a
  parameter. Its arguments are \<open>date, jform, epoch, orbinc, anode, perih, aorq, e, aorl, dm\<close>
  and its result is the vector \<open>pv\<close> with its status.\<close>

type_synonym planel =
  "real \<Rightarrow> int \<Rightarrow> real \<Rightarrow> real \<Rightarrow> real \<Rightarrow> real \<Rightarrow> real \<Rightarrow> real \<Rightarrow> real \<Rightarrow> real \<Rightarrow> real list \<times> int"

text \<open>The call of line 585 for the body of index \<open>ip\<close>.\<close>

definition planet_call :: "planel \<Rightarrow> real \<Rightarrow> nat \<Rightarrow> real list \<times> int" where
  "planet_call slaPlanel date ip =
     (let t = (date - 51544.5) / 365250;
          (di, dom, dpe, da, de, dl, dm) = planet_elements t ip
      in slaPlanel date 1 date di dom dpe da de dl dm)"

subsection \<open>\<open>slaPlanet\<close>: Pluto\<close>

text \<open>One term of Meeus's table, added to \<open>wlbr\<close> and \<open>wlbrd\<close>.\<close>

definition pluto_term ::
    "real \<Rightarrow> real \<Rightarrow> real \<Rightarrow> int \<times> int \<times> int \<times> (real \<times> real) list
      \<Rightarrow> real list \<times> real list \<Rightarrow> real list \<times> real list" where
  "pluto_term dj ds dp tm w =
     (case tm of (ij, isat, ip, dlbr) \<Rightarrow>
      let wj = real_of_int ij;
          ws = real_of_int isat;
          wp = real_of_int ip;
          al = wj * dj + ws * ds + wp * dp;
          ald = (wj * djd + ws * dsd + wp * dpd) * DD2R;
          sal = sin al;
          cal = cos al
      in fold (\<lambda>i (wlbr, wlbrd).
                 let ac = fst (dlbr ! i);
                     bc = snd (dlbr ! i)
                 in (wlbr [i := wlbr ! i + ac * sal + bc * cal],
                     wlbrd [i := wlbrd ! i + (ac * cal - bc * sal) * ald]))
              [0 ..< 3] w)"

text \<open>The state vector of Pluto at \<open>t\<close> Julian centuries from J2000 (lines 601 to 673).\<close>

definition pluto_pv :: "real \<Rightarrow> real list" where
  "pluto_pv t =
     (let dj = (dj0 + djd * t) * DD2R;
          ds = (ds0 + dsd * t) * DD2R;
          dp = (dp0 + dpd * t) * DD2R;
          (wlbr, wlbrd) = fold (pluto_term dj ds dp) term_tab ([0, 0, 0], [0, 0, 0]);
          dl = (dl0 + dld0 * t + wlbr ! 0) * DD2R;
          dld = (dld0 + wlbrd ! 0) * DD2R / SPC;
          db = (db0 + wlbr ! 1) * DD2R;
          dbd = wlbrd ! 1 * DD2R / SPC;
          dr = dr0 + wlbr ! 2;
          drd = wlbrd ! 2 / SPC;
          sl = sin dl;
          cl = cos dl;
          sb = sin db;
          cb = cos db;
          slcb = sl * cb;
          clcb = cl * cb;
          x = dr * clcb;
          y = dr * slcb;
          z = dr * sb;
          xd = drd * clcb - dr * (cl * sb * dbd + slcb * dld);
          yd = drd * slcb + dr * (- sl * sb * dbd + clcb * dld);
          zd = drd * sb + dr * cb * dbd
      in [x, y * CE - z * SE, y * SE + z * CE, xd, yd * CE - zd * SE, yd * SE + zd * CE])"

subsection \<open>\<open>slaPlanet\<close>\<close>

text \<open>The result is \<open>(pv, jstat)\<close>.\<close>

definition slaPlanet :: "planel \<Rightarrow> real \<Rightarrow> int \<Rightarrow> real list \<times> int" where
  "slaPlanet slaPlanel date np =
     (if np < 1 \<or> np > 9 then (replicate 6 0, - 1)
      else
        let ip = nat (np - 1)
        in if np \<noteq> 9
           then
             let t = (date - 51544.5) / 365250;
                 jstat = (if \<bar>t\<bar> \<le> 1 then 0 else 1);
                 (pv, j) = planet_call slaPlanel date ip;
                 jstat = (if j < 0 then - 2 else jstat)
             in (pv, jstat)
           else
             let t = (date - 51544.5) / 36525;
                 jstat = (if t \<ge> - 1.15 \<and> t \<le> 1 then 0 else - 1)
             in (pluto_pv t, jstat))"

section \<open>Shared lemmas\<close>

lemma sin_cos_products: "sin (a :: real) * sin a + cos a * cos a = 1"
  using sin_cos_squared_add [of a] by (simp add: power2_eq_square)

lemma pow2_powr: "pow2 e = 2 powr (real_of_int e)"
  by (simp add: pow2_def powr_real_of_int field_simps)

lemma pow2_pos: "0 < pow2 e"
  by (simp add: pow2_powr)

lemma pow2_add: "pow2 (a + b) = pow2 a * pow2 b"
  by (simp add: pow2_powr powr_add)

lemma pow2_mono: "a \<le> b \<Longrightarrow> pow2 a \<le> pow2 b"
  by (simp add: pow2_powr)

lemma pow2_nat: "0 \<le> e \<Longrightarrow> pow2 e = real_of_int (2 ^ nat e)"
  by (simp add: pow2_def)

lemma floor_log2_eq:
  assumes "0 < x" and "pow2 e \<le> x" and "x < pow2 (e + 1)"
  shows "\<lfloor>log 2 x\<rfloor> = e"
  using assms floor_log_eq_powr_iff [of x 2 e] by (simp add: pow2_powr)

lemma floor_log2_le:
  assumes "0 < x" and "x \<le> pow2 k"
  shows "\<lfloor>log 2 x\<rfloor> \<le> k"
proof -
  have "log 2 x \<le> real_of_int k"
    using assms by (simp add: pow2_powr log_le_iff)
  then show ?thesis
    by (simp add: floor_le_iff)
qed

lemma floor_log2_less:
  assumes "0 < x" and "x < pow2 k"
  shows "\<lfloor>log 2 x\<rfloor> < k"
proof -
  have "log 2 x < real_of_int k"
    using assms by (simp add: pow2_powr log_less_iff)
  then show ?thesis
    by (simp add: floor_less_iff)
qed

lemma ulp32_normal:
  assumes "- 126 \<le> e" and "pow2 e \<le> \<bar>x\<bar>" and "\<bar>x\<bar> < pow2 (e + 1)"
  shows "ulp32 x = pow2 (e - 23)"
proof -
  have "0 < \<bar>x\<bar>"
    using assms(2) pow2_pos [of e] by linarith
  then have "\<lfloor>log 2 \<bar>x\<bar>\<rfloor> = e"
    using assms by (intro floor_log2_eq) auto
  then show ?thesis
    using assms(1) by (simp add: ulp32_def)
qed

lemma ulp32_subnormal:
  assumes "x \<noteq> 0" and "\<bar>x\<bar> < pow2 (- 126)"
  shows "ulp32 x = pow2 (- 149)"
proof -
  have "\<lfloor>log 2 \<bar>x\<bar>\<rfloor> < - 126"
    using assms by (intro floor_log2_less) auto
  then show ?thesis
    by (simp add: ulp32_def max_def)
qed

lemma round_even_nearest:
  assumes "real_of_int n - 1 / 2 < y" and "y < real_of_int n + 1 / 2"
  shows "round_even y = n"
proof (cases "real_of_int n \<le> y")
  case True
  then have "\<lfloor>y\<rfloor> = n"
    using assms by (intro floor_unique) auto
  then show ?thesis
    using assms by (simp add: round_even_def Let_def)
next
  case False
  then have "\<lfloor>y\<rfloor> = n - 1"
    using assms by (intro floor_unique) auto
  then show ?thesis
    using assms by (simp add: round_even_def Let_def)
qed

lemma round_even_le:
  assumes "y \<le> real_of_int m"
  shows "round_even y \<le> m"
proof -
  have f: "\<lfloor>y\<rfloor> \<le> m"
    using assms by (simp add: floor_le_iff)
  show ?thesis
  proof (cases "y - real_of_int \<lfloor>y\<rfloor> < 1 / 2")
    case True
    then show ?thesis
      using f by (simp add: round_even_def Let_def)
  next
    case False
    then have "real_of_int \<lfloor>y\<rfloor> < y"
      by linarith
    then have "real_of_int \<lfloor>y\<rfloor> < real_of_int m"
      using assms by linarith
    then have "\<lfloor>y\<rfloor> + 1 \<le> m"
      by linarith
    then show ?thesis
      using f by (simp add: round_even_def Let_def)
  qed
qed

lemma round_even_ge:
  assumes "real_of_int m \<le> y"
  shows "m \<le> round_even y"
proof -
  have "m \<le> \<lfloor>y\<rfloor>"
    using assms by (simp add: le_floor_iff)
  then show ?thesis
    by (simp add: round_even_def Let_def)
qed

lemma max_float32_ge: "pow2 127 \<le> max_float32"
  by (simp add: pow2_def max_float32_def)

lemma rnd32_zero: "rnd32 0 = Finite 0"
  by (simp add: rnd32_def)

lemma rnd32_eval:
  assumes "- 126 \<le> e" and "pow2 e \<le> \<bar>x\<bar>" and "\<bar>x\<bar> < pow2 (e + 1)"
    and "round_even (x / pow2 (e - 23)) = n"
    and "\<bar>real_of_int n * pow2 (e - 23)\<bar> \<le> max_float32"
  shows "rnd32 x = Finite (real_of_int n * pow2 (e - 23))"
proof -
  have "x \<noteq> 0"
    using assms(2) pow2_pos [of e] by auto
  then show ?thesis
    using assms(4,5) ulp32_normal [OF assms(1-3)]
    by (auto simp: rnd32_def Let_def)
qed

lemma rnd32_nearest:
  assumes "- 126 \<le> e" and "pow2 e \<le> \<bar>x\<bar>" and "\<bar>x\<bar> < pow2 (e + 1)"
    and "(real_of_int n - 1 / 2) * pow2 (e - 23) < x"
    and "x < (real_of_int n + 1 / 2) * pow2 (e - 23)"
    and "\<bar>real_of_int n * pow2 (e - 23)\<bar> \<le> max_float32"
  shows "rnd32 x = Finite (real_of_int n * pow2 (e - 23))"
proof -
  have u: "0 < pow2 (e - 23)"
    by (rule pow2_pos)
  have "real_of_int n - 1 / 2 < x / pow2 (e - 23)"
    using assms(4) u by (simp add: pos_less_divide_eq)
  moreover have "x / pow2 (e - 23) < real_of_int n + 1 / 2"
    using assms(5) u by (simp add: pos_divide_less_eq)
  ultimately have "round_even (x / pow2 (e - 23)) = n"
    by (rule round_even_nearest)
  with assms show ?thesis
    by (intro rnd32_eval) auto
qed

lemma rnd32_bounded:
  assumes "\<bar>x\<bar> \<le> pow2 k" and "- 126 \<le> k" and "k \<le> 127"
  shows "\<exists>y. rnd32 x = Finite y \<and> \<bar>y\<bar> \<le> pow2 k"
proof (cases "x = 0")
  case True
  then show ?thesis
    using pow2_pos [of k] by (simp add: rnd32_def)
next
  case False
  define e where "e = max \<lfloor>log 2 \<bar>x\<bar>\<rfloor> (- 126)"
  define u where "u = pow2 (e - 23)"
  define N :: int where "N = 2 ^ nat (k - e + 23)"
  define n where "n = round_even (x / u)"
  have ek: "e \<le> k"
    using floor_log2_le [of "\<bar>x\<bar>" k] assms False by (simp add: e_def)
  have u: "0 < u"
    by (simp add: u_def pow2_pos)
  have "pow2 k = pow2 (k - e + 23) * pow2 (e - 23)"
    using pow2_add [of "k - e + 23" "e - 23"] by simp
  also have "pow2 (k - e + 23) = real_of_int N"
    using ek by (simp add: pow2_nat N_def)
  finally have k: "pow2 k = real_of_int N * u"
    by (simp add: u_def)
  have "\<bar>x / u\<bar> = \<bar>x\<bar> / u"
    using u by simp
  also have "\<dots> \<le> real_of_int N"
    using assms(1) u by (simp add: k pos_divide_le_eq)
  finally have "\<bar>x / u\<bar> \<le> real_of_int N" .
  then have "x / u \<le> real_of_int N" and "real_of_int (- N) \<le> x / u"
    by (simp_all only: abs_le_iff of_int_minus) linarith+
  then have "n \<le> N" and "- N \<le> n"
    unfolding n_def by (auto intro: round_even_le round_even_ge)
  then have "\<bar>real_of_int n\<bar> \<le> real_of_int N"
    by linarith
  then have "\<bar>real_of_int n\<bar> * u \<le> real_of_int N * u"
    using u by (simp add: mult_right_mono)
  then have b: "\<bar>real_of_int n * u\<bar> \<le> pow2 k"
    using u by (simp add: k abs_mult)
  have "pow2 k \<le> max_float32"
    using pow2_mono [OF assms(3)] max_float32_ge by linarith
  with b have "\<bar>real_of_int n * u\<bar> \<le> max_float32"
    by linarith
  then have "rnd32 x = Finite (real_of_int n * u)"
    using False by (auto simp: rnd32_def Let_def ulp32_def e_def [symmetric] u_def [symmetric] n_def [symmetric])
  with b show ?thesis
    by blast
qed

lemma TINY_value: "TINY = Finite (8796093 / 8796093022208)"
proof -
  have "rnd32 (1 / 1000000) = Finite (real_of_int 8796093 * pow2 (- 20 - 23))"
    by (rule rnd32_eval) (simp_all add: pow2_def max_float32_def round_even_def Let_def)
  then show ?thesis
    by (simp add: TINY_def pow2_def)
qed

lemma cos_Maclaurin_bound:
  assumes "0 < x" and "0 < n"
  shows "\<bar>cos x - (\<Sum>m<n. cos_coeff m * x ^ m)\<bar> \<le> x ^ n / fact n"
proof -
  obtain t where t: "cos x = (\<Sum>m<n. cos_coeff m * x ^ m) + (cos (t + 1 / 2 * real n * pi) / fact n) * x ^ n"
    using Maclaurin_cos_expansion2 [OF assms] by blast
  have "\<bar>cos x - (\<Sum>m<n. cos_coeff m * x ^ m)\<bar> = \<bar>cos (t + 1 / 2 * real n * pi)\<bar> * (x ^ n / fact n)"
    using assms(1) by (simp add: t abs_mult)
  also have "\<dots> \<le> 1 * (x ^ n / fact n)"
    using assms(1) by (intro mult_right_mono) auto
  finally show ?thesis
    by simp
qed


lemma sin_poly: "(\<Sum>m<13. sin_coeff m * x ^ m) = x - x^3 / 6 + x^5 / 120 - x^7 / 5040 + x^9 / 362880 - x^11 / 39916800" for x :: real
  by (simp add: lessThan_nat_numeral sin_coeff_def fact_numeral)

lemma cos_poly: "(\<Sum>m<12. cos_coeff m * x ^ m) = 1 - x^2 / 2 + x^4 / 24 - x^6 / 720 + x^8 / 40320 - x^10 / 3628800" for x :: real
  by (simp add: lessThan_nat_numeral cos_coeff_def fact_numeral)

lemma sin_fl_quarter_pi: "(11863283 - 1 / 2) / 16777216 < sin fl_quarter_pi \<and> sin fl_quarter_pi < (11863283 + 1 / 2) / 16777216"
proof -
  have "\<bar>sin fl_quarter_pi - (\<Sum>m<13. sin_coeff m * fl_quarter_pi ^ m)\<bar> \<le> inverse (fact 13) * \<bar>fl_quarter_pi\<bar> ^ 13"
    by (rule Maclaurin_sin_bound)
  then have b: "\<bar>sin fl_quarter_pi - (fl_quarter_pi - fl_quarter_pi^3 / 6 + fl_quarter_pi^5 / 120 - fl_quarter_pi^7 / 5040 + fl_quarter_pi^9 / 362880 - fl_quarter_pi^11 / 39916800)\<bar> \<le> fl_quarter_pi ^ 13 / 6227020800"
    by (simp add: sin_poly fact_numeral fl_quarter_pi_def)
  have lo: "(11863283 - 1 / 2) / 16777216 < (fl_quarter_pi - fl_quarter_pi^3 / 6 + fl_quarter_pi^5 / 120 - fl_quarter_pi^7 / 5040 + fl_quarter_pi^9 / 362880 - fl_quarter_pi^11 / 39916800) - fl_quarter_pi ^ 13 / 6227020800"
    by (simp add: fl_quarter_pi_def power_divide)
  have hi: "(fl_quarter_pi - fl_quarter_pi^3 / 6 + fl_quarter_pi^5 / 120 - fl_quarter_pi^7 / 5040 + fl_quarter_pi^9 / 362880 - fl_quarter_pi^11 / 39916800) + fl_quarter_pi ^ 13 / 6227020800 < (11863283 + 1 / 2) / 16777216"
    by (simp add: fl_quarter_pi_def power_divide)
  from b lo hi show ?thesis
    by linarith
qed

lemma cos_fl_quarter_pi: "(11863283 - 1 / 2) / 16777216 < cos fl_quarter_pi \<and> cos fl_quarter_pi < (11863283 + 1 / 2) / 16777216"
proof -
  have "0 < fl_quarter_pi" by (simp add: fl_quarter_pi_def)
  then have "\<bar>cos fl_quarter_pi - (\<Sum>m<12. cos_coeff m * fl_quarter_pi ^ m)\<bar> \<le> fl_quarter_pi ^ 12 / fact 12"
    by (rule cos_Maclaurin_bound) simp
  then have b: "\<bar>cos fl_quarter_pi - (1 - fl_quarter_pi^2 / 2 + fl_quarter_pi^4 / 24 - fl_quarter_pi^6 / 720 + fl_quarter_pi^8 / 40320 - fl_quarter_pi^10 / 3628800)\<bar> \<le> fl_quarter_pi ^ 12 / 479001600"
    by (simp add: cos_poly fact_numeral)
  have lo: "(11863283 - 1 / 2) / 16777216 < (1 - fl_quarter_pi^2 / 2 + fl_quarter_pi^4 / 24 - fl_quarter_pi^6 / 720 + fl_quarter_pi^8 / 40320 - fl_quarter_pi^10 / 3628800) - fl_quarter_pi ^ 12 / 479001600"
    by (simp add: fl_quarter_pi_def power_divide)
  have hi: "(1 - fl_quarter_pi^2 / 2 + fl_quarter_pi^4 / 24 - fl_quarter_pi^6 / 720 + fl_quarter_pi^8 / 40320 - fl_quarter_pi^10 / 3628800) + fl_quarter_pi ^ 12 / 479001600 < (11863283 + 1 / 2) / 16777216"
    by (simp add: fl_quarter_pi_def power_divide)
  from b lo hi show ?thesis
    by linarith
qed

lemma rnd32_rat:
  assumes "- 126 \<le> e" and "pow2 e \<le> \<bar>x\<bar>" and "\<bar>x\<bar> < pow2 (e + 1)"
    and "round_even (x / pow2 (e - 23)) = n"
    and "\<bar>real_of_int n * pow2 (e - 23)\<bar> \<le> max_float32"
    and "y = real_of_int n * pow2 (e - 23)"
  shows "rnd32 x = Finite y"
  using rnd32_eval [OF assms(1-5)] assms(6) by simp

lemma rnd32_one: "rnd32 1 = Finite 1"
  by (rule rnd32_rat [where e = 0 and n = 8388608])
     (simp_all add: pow2_def max_float32_def round_even_def Let_def)

lemma rnd32_fl_quarter_pi: "rnd32 fl_quarter_pi = Finite fl_quarter_pi"
  by (rule rnd32_rat [where e = "- 1" and n = 13176795])
     (simp_all add: fl_quarter_pi_def pow2_def max_float32_def round_even_def Let_def)

lemma rnd32_neg_fl_quarter_pi: "rnd32 (- fl_quarter_pi) = Finite (- fl_quarter_pi)"
  by (rule rnd32_rat [where e = "- 1" and n = "- 13176795"])
     (simp_all add: fl_quarter_pi_def pow2_def max_float32_def round_even_def Let_def)

lemma sin_fl_quarter_pi_half: "1 / 2 \<le> sin fl_quarter_pi \<and> sin fl_quarter_pi < 1"
  using sin_fl_quarter_pi by simp

lemma rnd32_sin_fl_quarter_pi: "rnd32 (sin fl_quarter_pi) = Finite (11863283 / 16777216)"
proof -
  have "rnd32 (sin fl_quarter_pi) = Finite (real_of_int 11863283 * pow2 (- 1 - 23))"
    using sin_fl_quarter_pi
    by (intro rnd32_nearest) (simp_all add: pow2_def max_float32_def)
  then show ?thesis
    by (simp add: pow2_def)
qed

lemma rnd32_neg_sin_fl_quarter_pi:
  "rnd32 (- sin fl_quarter_pi) = Finite (- (11863283 / 16777216))"
proof -
  have "rnd32 (- sin fl_quarter_pi) = Finite (real_of_int (- 11863283) * pow2 (- 1 - 23))"
    using sin_fl_quarter_pi
    by (intro rnd32_nearest) (simp_all add: pow2_def max_float32_def)
  then show ?thesis
    by (simp add: pow2_def)
qed

lemma rnd32_cos_fl_quarter_pi: "rnd32 (cos fl_quarter_pi) = Finite (11863283 / 16777216)"
proof -
  have "rnd32 (cos fl_quarter_pi) = Finite (real_of_int 11863283 * pow2 (- 1 - 23))"
    using cos_fl_quarter_pi
    by (intro rnd32_nearest) (simp_all add: pow2_def max_float32_def)
  then show ?thesis
    by (simp add: pow2_def)
qed

lemma f32_sin_zero: "f32_sin (Finite 0) = Finite 0"
  by (simp add: rnd32_zero)

lemma f32_cos_zero: "f32_cos (Finite 0) = Finite 1"
  by (simp add: rnd32_one)

lemma f32_sin_fl_quarter_pi: "f32_sin (Finite fl_quarter_pi) = Finite (11863283 / 16777216)"
  by (simp add: rnd32_sin_fl_quarter_pi)

lemma f32_sin_neg_fl_quarter_pi:
  "f32_sin (Finite (- fl_quarter_pi)) = Finite (- (11863283 / 16777216))"
  by (simp add: rnd32_neg_sin_fl_quarter_pi)

lemma f32_cos_fl_quarter_pi: "f32_cos (Finite fl_quarter_pi) = Finite (11863283 / 16777216)"
  by (simp add: rnd32_cos_fl_quarter_pi)

lemma f32_cos_neg_fl_quarter_pi:
  "f32_cos (Finite (- fl_quarter_pi)) = Finite (11863283 / 16777216)"
  by (simp add: rnd32_cos_fl_quarter_pi)

lemma f32_add_zero_zero: "f32_add (Finite 0) (Finite 0) = Finite 0"
  by (simp add: rnd32_zero)

lemma f32_mul_s_s:
  "f32_mul (Finite (11863283 / 16777216)) (Finite (11863283 / 16777216))
     = Finite (16777215 / 33554432)"
proof -
  have "rnd32 (11863283 / 16777216 * (11863283 / 16777216)) = Finite (16777215 / 33554432)"
    by (rule rnd32_rat [where e = "- 2" and n = 16777215])
       (simp_all add: pow2_def max_float32_def round_even_def Let_def)
  then show ?thesis
    by simp
qed

lemma f32_mul_s_neg_s:
  "f32_mul (Finite (11863283 / 16777216)) (Finite (- (11863283 / 16777216)))
     = Finite (- (16777215 / 33554432))"
proof -
  have "rnd32 (11863283 / 16777216 * (- (11863283 / 16777216)))
          = Finite (- (16777215 / 33554432))"
    by (rule rnd32_rat [where e = "- 2" and n = "- 16777215"])
       (simp_all add: pow2_def max_float32_def round_even_def Let_def)
  then show ?thesis
    by simp
qed

lemma f32_mul_q_one:
  "f32_mul (Finite (16777215 / 33554432)) (Finite 1) = Finite (16777215 / 33554432)"
proof -
  have "rnd32 (16777215 / 33554432) = Finite (16777215 / 33554432)"
    by (rule rnd32_rat [where e = "- 2" and n = 16777215])
       (simp_all add: pow2_def max_float32_def round_even_def Let_def)
  then show ?thesis
    by simp
qed

lemma f32_mul_neg_q_one:
  "f32_mul (Finite (- (16777215 / 33554432))) (Finite 1) = Finite (- (16777215 / 33554432))"
proof -
  have "rnd32 (- (16777215 / 33554432)) = Finite (- (16777215 / 33554432))"
    by (rule rnd32_rat [where e = "- 2" and n = "- 16777215"])
       (simp_all add: pow2_def max_float32_def round_even_def Let_def)
  then show ?thesis
    by simp
qed

lemma f32_add_neg_q_q:
  "f32_add (Finite (- (16777215 / 33554432))) (Finite (16777215 / 33554432)) = Finite 0"
  by (simp add: rnd32_zero)

lemma f32_mul_s_zero: "f32_mul (Finite (11863283 / 16777216)) (Finite 0) = Finite 0"
  by (simp add: rnd32_zero)

lemma f32_add_q_q:
  "f32_add (Finite (16777215 / 33554432)) (Finite (16777215 / 33554432))
     = Finite (16777215 / 16777216)"
proof -
  have "rnd32 (16777215 / 33554432 + 16777215 / 33554432) = Finite (16777215 / 16777216)"
    by (rule rnd32_rat [where e = "- 1" and n = 16777215])
       (simp_all add: pow2_def max_float32_def round_even_def Let_def)
  then show ?thesis
    by simp
qed

lemma f32_div_zero_tiny: "f32_div (Finite 0) (Finite (8796093 / 8796093022208)) = Some (Finite 0)"
  by (simp add: rnd32_zero)

lemma f32_div_2q_tiny:
  "f32_div (Finite (16777215 / 16777216)) (Finite (8796093 / 8796093022208))
     = Some (Finite (15999999 / 16))"
proof -
  have "rnd32 (16777215 / 16777216 / (8796093 / 8796093022208)) = Finite (15999999 / 16)"
    by (rule rnd32_rat [where e = 19 and n = 15999999])
       (simp_all add: pow2_def max_float32_def round_even_def Let_def)
  then show ?thesis
    by simp
qed

lemmas quarter_pi_steps =
  f32_sin_zero f32_cos_zero f32_sin_fl_quarter_pi f32_sin_neg_fl_quarter_pi
  f32_cos_fl_quarter_pi f32_cos_neg_fl_quarter_pi f32_add_zero_zero
  f32_mul_s_s f32_mul_s_neg_s f32_mul_q_one f32_mul_neg_q_one f32_add_neg_q_q
  f32_mul_s_zero f32_add_q_q f32_div_zero_tiny f32_div_2q_tiny

lemma s2tp_denom_quarter_pi:
  "s2tp_denom (Finite 0) (Finite fl_quarter_pi) (Finite 0) (Finite (- fl_quarter_pi)) = Finite 0"
  by (simp add: s2tp_denom_def Let_def f32_sub_def quarter_pi_steps
           del: f32_add.simps f32_mul.simps f32_div.simps f32_sin.simps f32_cos.simps)

lemma slaS2tp_quarter_pi:
  "slaS2tp (Finite 0) (Finite fl_quarter_pi) (Finite 0) (Finite (- fl_quarter_pi))
     = Some (Finite 0, Finite (15999999 / 16), 1)"
  by (simp add: slaS2tp_def s2tp_handle_def f32_gt_def f32_ge_def TINY_value
        Let_def f32_sub_def quarter_pi_steps
           del: f32_add.simps f32_mul.simps f32_div.simps f32_sin.simps f32_cos.simps)

lemma s2tp_handle_Finite:
  "s2tp_handle (Finite d) =
     (if 8796093 / 8796093022208 < d then (0, Finite d)
      else if 0 \<le> d then (1, TINY)
      else if - (8796093 / 8796093022208) < d then (2, f32_neg TINY)
      else (3, Finite d))"
  by (simp add: s2tp_handle_def f32_gt_def f32_ge_def TINY_value)

lemma s2tp_handle_NaN: "s2tp_handle NaN = (3, NaN)"
  by (simp add: s2tp_handle_def f32_gt_def f32_ge_def TINY_value)

lemma s2tp_handle_divisor:
  "\<exists>d'. snd (s2tp_handle (Finite d)) = Finite d' \<and> 8796093 / 8796093022208 \<le> \<bar>d'\<bar>"
proof -
  consider "8796093 / 8796093022208 < d"
    | "\<not> 8796093 / 8796093022208 < d" and "0 \<le> d"
    | "\<not> 0 \<le> d" and "- (8796093 / 8796093022208) < d"
    | "\<not> - (8796093 / 8796093022208) < d"
    by linarith
  then show ?thesis
  proof cases
    case 1
    then have "snd (s2tp_handle (Finite d)) = Finite d"
      by (simp add: s2tp_handle_Finite)
    with 1 show ?thesis
      by (intro exI [of _ d]) simp
  next
    case 2
    then have "snd (s2tp_handle (Finite d)) = Finite (8796093 / 8796093022208)"
      by (simp add: s2tp_handle_Finite TINY_value)
    then show ?thesis
      by (intro exI [of _ "8796093 / 8796093022208"]) simp
  next
    case 3
    then have "snd (s2tp_handle (Finite d)) = Finite (- (8796093 / 8796093022208))"
      by (simp add: s2tp_handle_Finite TINY_value)
    then show ?thesis
      by (intro exI [of _ "- (8796093 / 8796093022208)"]) simp
  next
    case 4
    then have "snd (s2tp_handle (Finite d)) = Finite d"
      by (simp add: s2tp_handle_Finite)
    with 4 show ?thesis
      by (intro exI [of _ d]) simp
  qed
qed

lemma rnd32_unit:
  assumes "\<bar>x\<bar> \<le> 1"
  shows "\<exists>y. rnd32 x = Finite y \<and> \<bar>y\<bar> \<le> 1"
  using rnd32_bounded [of x 0] assms by (simp add: pow2_def)

lemma rnd32_two:
  assumes "\<bar>x\<bar> \<le> 2"
  shows "\<exists>y. rnd32 x = Finite y \<and> \<bar>y\<bar> \<le> 2"
  using rnd32_bounded [of x 1] assms by (simp add: pow2_def)

lemma f32_sin_Finite: "\<exists>s. f32_sin (Finite r) = Finite s \<and> \<bar>s\<bar> \<le> 1"
  using rnd32_unit [of "sin r"] by simp

lemma f32_cos_Finite: "\<exists>c. f32_cos (Finite r) = Finite c \<and> \<bar>c\<bar> \<le> 1"
  using rnd32_unit [of "cos r"] by simp

lemma f32_sin_cos_other:
  assumes "\<forall>r. x \<noteq> Finite r"
  shows "f32_sin x = NaN \<and> f32_cos x = NaN"
  using assms by (cases x) auto

lemma f32_mul_NaN_right: "f32_mul x NaN = NaN"
  by (cases x) auto

lemma f32_add_NaN_right: "f32_add x NaN = NaN"
  by (cases x) auto

lemma f32_mul_unit:
  assumes "\<bar>a\<bar> \<le> 1" and "\<bar>b\<bar> \<le> 1"
  shows "\<exists>c. f32_mul (Finite a) (Finite b) = Finite c \<and> \<bar>c\<bar> \<le> 1"
proof -
  have "\<bar>a * b\<bar> \<le> 1"
    using assms by (simp add: abs_mult mult_le_one)
  then show ?thesis
    using rnd32_unit [of "a * b"] by simp
qed

lemma f32_add_unit:
  assumes "\<bar>a\<bar> \<le> 1" and "\<bar>b\<bar> \<le> 1"
  shows "\<exists>c. f32_add (Finite a) (Finite b) = Finite c \<and> \<bar>c\<bar> \<le> 2"
proof -
  have "\<bar>a + b\<bar> \<le> 2"
    using assms by linarith
  then show ?thesis
    using rnd32_two [of "a + b"] by simp
qed

lemma f32_sub_unit:
  assumes "\<bar>a\<bar> \<le> 1" and "\<bar>b\<bar> \<le> 1"
  shows "\<exists>c. f32_sub (Finite a) (Finite b) = Finite c \<and> \<bar>c\<bar> \<le> 2"
  using f32_add_unit [of a "- b"] assms by (simp add: f32_sub_def)

lemma f32_div_bounded:
  assumes "\<bar>a\<bar> \<le> 2" and "8796093 / 8796093022208 \<le> \<bar>d\<bar>"
  shows "\<exists>q. f32_div (Finite a) (Finite d) = Some (Finite q)"
proof -
  have d: "0 < \<bar>d\<bar>"
    using assms(2) by linarith
  have "\<bar>a / d\<bar> = \<bar>a\<bar> / \<bar>d\<bar>"
    by simp
  also have "\<dots> \<le> 2 / \<bar>d\<bar>"
    using assms(1) d by (simp add: divide_right_mono)
  also have "\<dots> \<le> 2 / (8796093 / 8796093022208)"
    using assms(2) by (intro divide_left_mono) auto
  also have "\<dots> \<le> pow2 21"
    by (simp add: pow2_def)
  finally obtain q where "rnd32 (a / d) = Finite q"
    using rnd32_bounded [of "a / d" 21] by auto
  then show ?thesis
    using d by auto
qed

lemma slaS2tp_unfold:
  "slaS2tp ra dec raz decz =
     do {
       xi \<leftarrow> f32_div (s2tp_xi_num ra dec raz decz)
               (snd (s2tp_handle (s2tp_denom ra dec raz decz)));
       eta \<leftarrow> f32_div (s2tp_eta_num ra dec raz decz)
                (snd (s2tp_handle (s2tp_denom ra dec raz decz)));
       Some (xi, eta, fst (s2tp_handle (s2tp_denom ra dec raz decz)))
     }"
  by (simp add: slaS2tp_def s2tp_denom_def s2tp_xi_num_def s2tp_eta_num_def Let_def split_beta)

lemma s2tp_values:
  "s2tp_denom ra dec raz decz = NaN \<or>
   (\<exists>d xn en. s2tp_denom ra dec raz decz = Finite d \<and>
      s2tp_xi_num ra dec raz decz = Finite xn \<and> \<bar>xn\<bar> \<le> 1 \<and>
      s2tp_eta_num ra dec raz decz = Finite en \<and> \<bar>en\<bar> \<le> 2)"
proof (cases "(\<exists>a. dec = Finite a) \<and> (\<exists>b. decz = Finite b) \<and> (\<exists>r. f32_sub ra raz = Finite r)")
  case True
  then obtain a b r where dec: "dec = Finite a" and decz: "decz = Finite b"
    and radif: "f32_sub ra raz = Finite r"
    by blast
  obtain sdec where sdec: "f32_sin (Finite a) = Finite sdec" "\<bar>sdec\<bar> \<le> 1"
    using f32_sin_Finite by blast
  obtain cdec where cdec: "f32_cos (Finite a) = Finite cdec" "\<bar>cdec\<bar> \<le> 1"
    using f32_cos_Finite by blast
  obtain sdecz where sdecz: "f32_sin (Finite b) = Finite sdecz" "\<bar>sdecz\<bar> \<le> 1"
    using f32_sin_Finite by blast
  obtain cdecz where cdecz: "f32_cos (Finite b) = Finite cdecz" "\<bar>cdecz\<bar> \<le> 1"
    using f32_cos_Finite by blast
  obtain sradif where sradif: "f32_sin (Finite r) = Finite sradif" "\<bar>sradif\<bar> \<le> 1"
    using f32_sin_Finite by blast
  obtain cradif where cradif: "f32_cos (Finite r) = Finite cradif" "\<bar>cradif\<bar> \<le> 1"
    using f32_cos_Finite by blast
  obtain p1 where p1: "f32_mul (Finite sdec) (Finite sdecz) = Finite p1" "\<bar>p1\<bar> \<le> 1"
    using f32_mul_unit [OF sdec(2) sdecz(2)] by blast
  obtain p2 where p2: "f32_mul (Finite cdec) (Finite cdecz) = Finite p2" "\<bar>p2\<bar> \<le> 1"
    using f32_mul_unit [OF cdec(2) cdecz(2)] by blast
  obtain p3 where p3: "f32_mul (Finite p2) (Finite cradif) = Finite p3" "\<bar>p3\<bar> \<le> 1"
    using f32_mul_unit [OF p2(2) cradif(2)] by blast
  obtain d where d: "f32_add (Finite p1) (Finite p3) = Finite d"
    using f32_add_unit [OF p1(2) p3(2)] by blast
  obtain xn where xn: "f32_mul (Finite cdec) (Finite sradif) = Finite xn" "\<bar>xn\<bar> \<le> 1"
    using f32_mul_unit [OF cdec(2) sradif(2)] by blast
  obtain q1 where q1: "f32_mul (Finite sdec) (Finite cdecz) = Finite q1" "\<bar>q1\<bar> \<le> 1"
    using f32_mul_unit [OF sdec(2) cdecz(2)] by blast
  obtain q2 where q2: "f32_mul (Finite cdec) (Finite sdecz) = Finite q2" "\<bar>q2\<bar> \<le> 1"
    using f32_mul_unit [OF cdec(2) sdecz(2)] by blast
  obtain q3 where q3: "f32_mul (Finite q2) (Finite cradif) = Finite q3" "\<bar>q3\<bar> \<le> 1"
    using f32_mul_unit [OF q2(2) cradif(2)] by blast
  obtain en where en: "f32_sub (Finite q1) (Finite q3) = Finite en" "\<bar>en\<bar> \<le> 2"
    using f32_sub_unit [OF q1(2) q3(2)] by blast
  have "s2tp_denom ra dec raz decz = Finite d"
    unfolding s2tp_denom_def Let_def dec decz radif sdec(1) cdec(1) sdecz(1) cdecz(1)
      cradif(1) p1(1) p2(1) p3(1) d ..
  moreover have "s2tp_xi_num ra dec raz decz = Finite xn"
    unfolding s2tp_xi_num_def Let_def dec radif cdec(1) sradif(1) xn(1) ..
  moreover have "s2tp_eta_num ra dec raz decz = Finite en"
    unfolding s2tp_eta_num_def Let_def dec decz radif sdec(1) cdec(1) sdecz(1) cdecz(1)
      cradif(1) q1(1) q2(1) q3(1) en(1) ..
  ultimately show ?thesis
    using xn(2) en(2) by blast
next
  case False
  then consider "\<forall>a. dec \<noteq> Finite a" | "\<forall>b. decz \<noteq> Finite b" | "\<forall>r. f32_sub ra raz \<noteq> Finite r"
    by blast
  then have "s2tp_denom ra dec raz decz = NaN"
  proof cases
    case 1
    then show ?thesis
      using f32_sin_cos_other [of dec] by (simp add: s2tp_denom_def Let_def)
  next
    case 2
    then show ?thesis
      using f32_sin_cos_other [of decz] by (simp add: s2tp_denom_def Let_def f32_mul_NaN_right)
  next
    case 3
    then show ?thesis
      using f32_sin_cos_other [of "f32_sub ra raz"]
      by (simp add: s2tp_denom_def Let_def f32_mul_NaN_right f32_add_NaN_right)
  qed
  then show ?thesis
    by blast
qed

lemma slaS2tp_cases:
  "(s2tp_denom ra dec raz decz = NaN \<and> slaS2tp ra dec raz decz = Some (NaN, NaN, 3)) \<or>
   (\<exists>d d' xi eta.
      s2tp_denom ra dec raz decz = Finite d \<and>
      snd (s2tp_handle (Finite d)) = Finite d' \<and>
      8796093 / 8796093022208 \<le> \<bar>d'\<bar> \<and>
      f32_div (s2tp_xi_num ra dec raz decz) (Finite d') = Some (Finite xi) \<and>
      f32_div (s2tp_eta_num ra dec raz decz) (Finite d') = Some (Finite eta) \<and>
      slaS2tp ra dec raz decz = Some (Finite xi, Finite eta, fst (s2tp_handle (Finite d))))"
proof -
  consider "s2tp_denom ra dec raz decz = NaN"
    | d xn en where "s2tp_denom ra dec raz decz = Finite d"
        "s2tp_xi_num ra dec raz decz = Finite xn" "\<bar>xn\<bar> \<le> 1"
        "s2tp_eta_num ra dec raz decz = Finite en" "\<bar>en\<bar> \<le> 2"
    using s2tp_values [of ra dec raz decz] by blast
  then show ?thesis
  proof cases
    case 1
    then show ?thesis
      by (simp add: slaS2tp_unfold s2tp_handle_NaN)
  next
    case 2
    obtain d' where d': "snd (s2tp_handle (Finite d)) = Finite d'"
      "8796093 / 8796093022208 \<le> \<bar>d'\<bar>"
      using s2tp_handle_divisor by blast
    have "\<bar>xn\<bar> \<le> 2"
      using 2(3) by linarith
    then obtain xi where xi: "f32_div (Finite xn) (Finite d') = Some (Finite xi)"
      using f32_div_bounded [OF _ d'(2)] by blast
    obtain eta where eta: "f32_div (Finite en) (Finite d') = Some (Finite eta)"
      using f32_div_bounded [OF 2(5) d'(2)] by blast
    have "slaS2tp ra dec raz decz = Some (Finite xi, Finite eta, fst (s2tp_handle (Finite d)))"
      unfolding slaS2tp_unfold 2(1) 2(2) 2(4) d'(1) xi eta by simp
    with 2 d' xi eta show ?thesis
      by auto
  qed
qed

lemma s2tp_denom_origin:
  "s2tp_denom (Finite 0) (Finite 0) (Finite 0) (Finite 0) = Finite 1"
  by (simp add: s2tp_denom_def Let_def f32_sub_def rnd32_zero rnd32_one)

lemma s2tp_denom_NaN_ra: "s2tp_denom NaN (Finite 0) (Finite 0) (Finite 0) = NaN"
  by (simp add: s2tp_denom_def Let_def f32_sub_def f32_mul_NaN_right f32_add_NaN_right)

lemma s2tp_denom_PInf_dec: "s2tp_denom (Finite 0) PInf (Finite 0) (Finite 0) = NaN"
  by (simp add: s2tp_denom_def Let_def)

lemma cos_poly24:
  "(\<Sum>m<24. cos_coeff m * x ^ m) =
     1 - x^2 / 2 + x^4 / 24 - x^6 / 720 + x^8 / 40320 - x^10 / 3628800
       + x^12 / 479001600 - x^14 / 87178291200 + x^16 / 20922789888000
       - x^18 / 6402373705728000 + x^20 / 2432902008176640000
       - x^22 / 1124000727777607680000" for x :: real
  by (simp add: lessThan_nat_numeral cos_coeff_def fact_numeral)

lemma sin_poly17:
  "(\<Sum>m<17. sin_coeff m * x ^ m) =
     x - x^3 / 6 + x^5 / 120 - x^7 / 5040 + x^9 / 362880 - x^11 / 39916800
       + x^13 / 6227020800 - x^15 / 1307674368000" for x :: real
  by (simp add: lessThan_nat_numeral sin_coeff_def fact_numeral)

lemma cos_fl_half_pi:
  "(12303662 - 1 / 2) / 281474976710656 < - cos fl_half_pi \<and>
   - cos fl_half_pi < (12303662 + 1 / 2) / 281474976710656"
proof -
  define P where "P = 1 - fl_half_pi^2 / 2 + fl_half_pi^4 / 24 - fl_half_pi^6 / 720
       + fl_half_pi^8 / 40320 - fl_half_pi^10 / 3628800
       + fl_half_pi^12 / 479001600 - fl_half_pi^14 / 87178291200
       + fl_half_pi^16 / 20922789888000
       - fl_half_pi^18 / 6402373705728000 + fl_half_pi^20 / 2432902008176640000
       - fl_half_pi^22 / 1124000727777607680000"
  have "0 < fl_half_pi"
    by (simp add: fl_half_pi_def)
  then have "\<bar>cos fl_half_pi - (\<Sum>m<24. cos_coeff m * fl_half_pi ^ m)\<bar> \<le> fl_half_pi ^ 24 / fact 24"
    by (rule cos_Maclaurin_bound) simp
  then have b: "\<bar>cos fl_half_pi - P\<bar> \<le> fl_half_pi ^ 24 / 620448401733239439360000"
    by (simp add: cos_poly24 fact_numeral P_def)
  have lo: "(12303662 - 1 / 2) / 281474976710656 < - P - fl_half_pi ^ 24 / 620448401733239439360000"
    by (simp add: P_def fl_half_pi_def power_divide)
  have hi: "- P + fl_half_pi ^ 24 / 620448401733239439360000 < (12303662 + 1 / 2) / 281474976710656"
    by (simp add: P_def fl_half_pi_def power_divide)
  from b lo hi show ?thesis
    by linarith
qed

lemma sin_fl_half_pi: "1 - 1 / 33554432 < sin fl_half_pi"
proof -
  define P where "P = fl_half_pi - fl_half_pi^3 / 6 + fl_half_pi^5 / 120 - fl_half_pi^7 / 5040
       + fl_half_pi^9 / 362880 - fl_half_pi^11 / 39916800
       + fl_half_pi^13 / 6227020800 - fl_half_pi^15 / 1307674368000"
  have "\<bar>sin fl_half_pi - (\<Sum>m<17. sin_coeff m * fl_half_pi ^ m)\<bar>
          \<le> inverse (fact 17) * \<bar>fl_half_pi\<bar> ^ 17"
    by (rule Maclaurin_sin_bound)
  then have b: "\<bar>sin fl_half_pi - P\<bar> \<le> fl_half_pi ^ 17 / 355687428096000"
    by (simp add: sin_poly17 fact_numeral P_def fl_half_pi_def)
  have lo: "1 - 1 / 33554432 < P - fl_half_pi ^ 17 / 355687428096000"
    by (simp add: P_def fl_half_pi_def power_divide)
  from b lo show ?thesis
    by linarith
qed

lemma rnd32_sin_fl_half_pi: "rnd32 (sin fl_half_pi) = Finite 1"
proof (cases "sin fl_half_pi = 1")
  case True
  then show ?thesis
    by (simp add: rnd32_one)
next
  case False
  then have less: "sin fl_half_pi < 1"
    using sin_le_one [of fl_half_pi] by linarith
  have "rnd32 (sin fl_half_pi) = Finite (real_of_int 16777216 * pow2 (- 1 - 23))"
    using sin_fl_half_pi less
    by (intro rnd32_nearest) (simp_all add: pow2_def max_float32_def)
  then show ?thesis
    by (simp add: pow2_def)
qed

lemma rnd32_cos_fl_half_pi:
  "rnd32 (cos fl_half_pi) = Finite (- (6151831 / 140737488355328))"
proof -
  have "rnd32 (cos fl_half_pi) = Finite (real_of_int (- 12303662) * pow2 (- 25 - 23))"
    using cos_fl_half_pi
    by (intro rnd32_nearest) (simp_all add: pow2_def max_float32_def)
  then show ?thesis
    by (simp add: pow2_def)
qed

lemma f32_sin_fl_half_pi: "f32_sin (Finite fl_half_pi) = Finite 1"
  by (simp add: rnd32_sin_fl_half_pi)

lemma f32_cos_fl_half_pi:
  "f32_cos (Finite fl_half_pi) = Finite (- (6151831 / 140737488355328))"
  by (simp add: rnd32_cos_fl_half_pi)

lemma f32_mul_zero_one: "f32_mul (Finite 0) (Finite 1) = Finite 0"
  by (simp add: rnd32_zero)

lemma f32_mul_one_zero: "f32_mul (Finite 1) (Finite 0) = Finite 0"
  by (simp add: rnd32_zero)

lemma f32_mul_one_one: "f32_mul (Finite 1) (Finite 1) = Finite 1"
  by (simp add: rnd32_one)

lemma rnd32_c1:
  "rnd32 (- (6151831 / 140737488355328)) = Finite (- (6151831 / 140737488355328))"
  by (rule rnd32_rat [where e = "- 25" and n = "- 12303662"])
     (simp_all add: pow2_def max_float32_def round_even_def Let_def)

lemma f32_mul_one_c1:
  "f32_mul (Finite 1) (Finite (- (6151831 / 140737488355328)))
     = Finite (- (6151831 / 140737488355328))"
  by (simp add: rnd32_c1)

lemma f32_mul_c1_one:
  "f32_mul (Finite (- (6151831 / 140737488355328))) (Finite 1)
     = Finite (- (6151831 / 140737488355328))"
  by (simp add: rnd32_c1)

lemma f32_mul_zero_c1:
  "f32_mul (Finite 0) (Finite (- (6151831 / 140737488355328))) = Finite 0"
  by (simp add: rnd32_zero)

lemma f32_add_zero_c1:
  "f32_add (Finite 0) (Finite (- (6151831 / 140737488355328)))
     = Finite (- (6151831 / 140737488355328))"
  by (simp add: rnd32_c1)

lemma f32_add_zero_neg_one: "f32_add (Finite 0) (Finite (- 1)) = Finite (- 1)"
proof -
  have "rnd32 (- 1) = Finite (- 1)"
    by (rule rnd32_rat [where e = 0 and n = "- 8388608"])
       (simp_all add: pow2_def max_float32_def round_even_def Let_def)
  then show ?thesis
    by simp
qed

lemma f32_div_zero_neg_tiny:
  "f32_div (Finite 0) (Finite (- (8796093 / 8796093022208))) = Some (Finite 0)"
  by (simp add: rnd32_zero)

lemma f32_div_neg_one_neg_tiny:
  "f32_div (Finite (- 1)) (Finite (- (8796093 / 8796093022208))) = Some (Finite 1000000)"
proof -
  have "rnd32 (- 1 / (- (8796093 / 8796093022208))) = Finite 1000000"
    by (rule rnd32_rat [where e = 19 and n = 16000000])
       (simp_all add: pow2_def max_float32_def round_even_def Let_def)
  then show ?thesis
    by simp
qed

lemma rnd32_fl_half_pi: "rnd32 fl_half_pi = Finite fl_half_pi"
  by (rule rnd32_rat [where e = 0 and n = 13176795])
     (simp_all add: fl_half_pi_def pow2_def max_float32_def round_even_def Let_def)

lemmas half_pi_steps =
  f32_sin_zero f32_cos_zero f32_sin_fl_half_pi f32_cos_fl_half_pi f32_add_zero_zero
  f32_mul_zero_one f32_mul_one_zero f32_mul_one_one f32_mul_one_c1 f32_mul_c1_one
  f32_mul_zero_c1 f32_add_zero_c1 f32_add_zero_neg_one
  f32_div_zero_neg_tiny f32_div_neg_one_neg_tiny

lemma s2tp_denom_half_pi:
  "s2tp_denom (Finite 0) (Finite 0) (Finite 0) (Finite fl_half_pi)
     = Finite (- (6151831 / 140737488355328))"
  by (simp add: s2tp_denom_def Let_def f32_sub_def half_pi_steps
           del: f32_add.simps f32_mul.simps f32_div.simps f32_sin.simps f32_cos.simps)

lemma slaS2tp_half_pi:
  "slaS2tp (Finite 0) (Finite 0) (Finite 0) (Finite fl_half_pi)
     = Some (Finite 0, Finite 1000000, 2)"
  by (simp add: slaS2tp_def s2tp_handle_def f32_gt_def f32_ge_def TINY_value
        Let_def f32_sub_def half_pi_steps
           del: f32_add.simps f32_mul.simps f32_div.simps f32_sin.simps f32_cos.simps)

lemma rodrigues_orthonormal:
  fixes x y z s c :: real
  assumes n: "x * x + y * y + z * z = 1" and t: "s * s + c * c = 1"
  shows "mxmt (rodrigues x y z s c) = unit_matrix"
proof -
  have d0: "(x * x * (1 - c) + c) * (x * x * (1 - c) + c)
       + (x * y * (1 - c) + z * s) * (x * y * (1 - c) + z * s)
       + (x * z * (1 - c) - y * s) * (x * z * (1 - c) - y * s) = 1"
    using n t by algebra
  have d1: "(x * y * (1 - c) - z * s) * (x * y * (1 - c) - z * s)
       + (y * y * (1 - c) + c) * (y * y * (1 - c) + c)
       + (y * z * (1 - c) + x * s) * (y * z * (1 - c) + x * s) = 1"
    using n t by algebra
  have d2: "(x * z * (1 - c) + y * s) * (x * z * (1 - c) + y * s)
       + (y * z * (1 - c) - x * s) * (y * z * (1 - c) - x * s)
       + (z * z * (1 - c) + c) * (z * z * (1 - c) + c) = 1"
    using n t by algebra
  have o01: "(x * x * (1 - c) + c) * (x * y * (1 - c) - z * s)
       + (x * y * (1 - c) + z * s) * (y * y * (1 - c) + c)
       + (x * z * (1 - c) - y * s) * (y * z * (1 - c) + x * s) = 0"
    using n t by algebra
  have o02: "(x * x * (1 - c) + c) * (x * z * (1 - c) + y * s)
       + (x * y * (1 - c) + z * s) * (y * z * (1 - c) - x * s)
       + (x * z * (1 - c) - y * s) * (z * z * (1 - c) + c) = 0"
    using n t by algebra
  have o12: "(x * y * (1 - c) - z * s) * (x * z * (1 - c) + y * s)
       + (y * y * (1 - c) + c) * (y * z * (1 - c) - x * s)
       + (y * z * (1 - c) + x * s) * (z * z * (1 - c) + c) = 0"
    using n t by algebra
  have o10: "(x * y * (1 - c) - z * s) * (x * x * (1 - c) + c)
       + (y * y * (1 - c) + c) * (x * y * (1 - c) + z * s)
       + (y * z * (1 - c) + x * s) * (x * z * (1 - c) - y * s) = 0"
    using o01 by (simp add: mult.commute)
  have o20: "(x * z * (1 - c) + y * s) * (x * x * (1 - c) + c)
       + (y * z * (1 - c) - x * s) * (x * y * (1 - c) + z * s)
       + (z * z * (1 - c) + c) * (x * z * (1 - c) - y * s) = 0"
    using o02 by (simp add: mult.commute)
  have o21: "(x * z * (1 - c) + y * s) * (x * y * (1 - c) - z * s)
       + (y * z * (1 - c) - x * s) * (y * y * (1 - c) + c)
       + (z * z * (1 - c) + c) * (y * z * (1 - c) + x * s) = 0"
    using o12 by (simp add: mult.commute)
  show ?thesis
    unfolding rodrigues_def mxmt_def unit_matrix_def dot3_def prod.case
    using d0 d1 d2 o01 o02 o12 o10 o20 o21 by simp
qed

lemma slaAv2m_nonzero:
  assumes "axvec \<noteq> (0, 0, 0)"
  shows "\<exists>R. slaAv2m axvec = Some R \<and> mxmt R = unit_matrix"
proof -
  obtain x y z where v: "axvec = (x, y, z)"
    by (cases axvec) auto
  define phi where "phi = sqrt (x * x + y * y + z * z)"
  have nn: "0 \<le> x * x + y * y + z * z"
    by simp
  have pos: "x * x + y * y + z * z \<noteq> 0"
    using assms v by (auto simp: add_nonneg_eq_0_iff)
  have phi0: "phi \<noteq> 0"
    using pos nn by (simp add: phi_def)
  have phi2: "phi * phi = x * x + y * y + z * z"
    using nn by (simp add: phi_def)
  have n: "(x / phi) * (x / phi) + (y / phi) * (y / phi) + (z / phi) * (z / phi) = 1"
  proof -
    have "(x / phi) * (x / phi) + (y / phi) * (y / phi) + (z / phi) * (z / phi)
          = (x * x + y * y + z * z) / (phi * phi)"
      by (simp add: add_divide_distrib)
    also have "\<dots> = 1"
      using pos phi2 by simp
    finally show ?thesis .
  qed
  have "slaAv2m axvec = Some (rodrigues (x / phi) (y / phi) (z / phi) (sin phi) (cos phi))"
    unfolding v slaAv2m_def prod.case phi_def [symmetric] Let_def fdiv_def rodrigues_def
    using phi0 by simp
  with rodrigues_orthonormal [OF n sin_cos_products [of phi]] show ?thesis
    by simp
qed

lemma na_length: "length na = 194"
  by (simp add: na_def)

lemma na_rows: "list_all (\<lambda>row. length row = 9) na"
  by (simp add: na_def)

lemma psi_length: "length psi = 194"
  by (simp add: psi_def)

lemma psi_rows: "list_all (\<lambda>row. length row = 4) psi"
  by (simp add: psi_def)

lemma eps_length: "length eps = 194"
  by (simp add: eps_def)

lemma eps_rows: "list_all (\<lambda>row. length row = 4) eps"
  by (simp add: eps_def)

lemma length_concat_rows:
  "list_all (\<lambda>row. length row = n) xss \<Longrightarrow> length (concat xss) = length xss * n"
  by (induction xss) auto

lemma nterms_value: "nterms = 194"
  using length_concat_rows [OF na_rows] by (simp add: nterms_def sizeof_int_def na_length)

lemma nutc_loop_iters: "acc_iters (nutc_loop t ang n st) = acc_iters st + n"
  by (induction n arbitrary: st) (simp_all add: nutc_term_def Let_def)

lemma nutc_series_iters: "acc_iters (nutc_series date) = nterms"
  by (simp add: nutc_series_def Let_def nutc_loop_iters)

lemma dmod_range:
  assumes B: "0 < B"
  shows "0 \<le> dmod A B \<and> dmod A B < B"
proof -
  have lo: "real_of_int \<lfloor>A / B\<rfloor> * B \<le> A"
    using B of_int_floor_le [of "A / B"] by (simp only: pos_le_divide_eq)
  have "A / B < real_of_int \<lfloor>A / B\<rfloor> + 1"
    by linarith
  then have hi: "A < (real_of_int \<lfloor>A / B\<rfloor> + 1) * B"
    using B by (simp only: pos_divide_less_eq)
  from lo hi show ?thesis
    by (simp add: dmod_def algebra_simps)
qed

lemma dmod_negative_operand: "dmod (- pi) D2PI = pi"
  by (simp add: dmod_def D2PI_def)

lemma planet_elements_range:
  assumes "planet_elements t ip = (di, anode, dpe, da, de, dl, dm)"
  shows "0 \<le> anode \<and> anode < 2 * pi \<and> 0 \<le> dl \<and> dl < 2 * pi"
  using assms dmod_range [of D2PI]
  by (auto simp: planet_elements_def Let_def D2PI_def split: prod.splits)

lemma slaPlanet_major:
  assumes "1 \<le> np" and "np \<le> 8"
  shows "slaPlanet P date np =
    (fst (planet_call P date (nat (np - 1))),
     if snd (planet_call P date (nat (np - 1))) < 0 then - 2
     else if \<bar>(date - 51544.5) / 365250\<bar> \<le> 1 then 0 else 1)"
  using assms by (simp add: slaPlanet_def Let_def split: prod.splits)

section \<open>Vector and matrix primitives: results\<close>

text \<open>
  Claim C9. For every pair of angles \<open>(a, b)\<close>, \<open>slaCs2c\<close> returns exactly the vector
  \<open>(cos a cos b, sin a cos b, sin b)\<close>, and in exact arithmetic that vector has Euclidean
  norm 1.
\<close>

theorem slaCs2c_unit_vector:
  "slaCs2c a b = (cos a * cos b, sin a * cos b, sin b) \<and> vnorm (slaCs2c a b) = 1"
proof -
  have "cos a * cos b * (cos a * cos b) + sin a * cos b * (sin a * cos b) + sin b * sin b = 1"
    using sin_cos_products [of a] sin_cos_products [of b] by algebra
  then show ?thesis
    by (simp add: slaCs2c_def vnorm_def Let_def)
qed

text \<open>
  Claim C8. \<open>slaAv2m\<close> applied to the zero vector returns exactly the unit matrix, and no
  division by zero takes place on the way (the result is \<open>Some\<close>); for every nonzero axial
  vector no division by zero takes place either, and the returned matrix \<open>R\<close> satisfies
  \<open>R R\<^sup>T = I\<close> in exact arithmetic.
\<close>

theorem slaAv2m_orthonormal:
  "slaAv2m (0, 0, 0) = Some unit_matrix \<and>
   (axvec \<noteq> (0, 0, 0) \<longrightarrow> (\<exists>R. slaAv2m axvec = Some R \<and> mxmt R = unit_matrix))"
proof
  show "slaAv2m (0, 0, 0) = Some unit_matrix"
    by (simp add: slaAv2m_def unit_matrix_def)
  show "axvec \<noteq> (0, 0, 0) \<longrightarrow> (\<exists>R. slaAv2m axvec = Some R \<and> mxmt R = unit_matrix)"
    using slaAv2m_nonzero by blast
qed

theorem slaAv2m_orthonormal_witness:
  "((3, 4, 0) :: vec3) \<noteq> (0, 0, 0) \<and>
   (\<exists>R. slaAv2m (3, 4, 0) = Some R \<and> mxmt R = unit_matrix)"
  using slaAv2m_orthonormal [of "(3, 4, 0)"] by simp

text \<open>
  Claim C2, as amended. In \<open>slaS2tp\<close>, with \<open>denom\<close> the single-precision value that line 48
  computes and \<open>\<epsilon> = TINY\<close> the single-precision constant \<open>1e-6f = 8796093 / 2^43\<close>, the
  classification is in four ways: status 0 (OK) if \<open>denom > \<epsilon>\<close>; status 1 (star too far
  from axis) if \<open>0 \<le> denom \<le> \<epsilon>\<close>, the denominator clamped to \<open>\<epsilon>\<close>; status 2 (antistar on
  tangent plane) if \<open>-\<epsilon> < denom < 0\<close>, the denominator clamped to \<open>-\<epsilon>\<close>; status 3
  (antistar too far from axis) if \<open>denom \<le> -\<epsilon>\<close>. For every input where \<open>denom\<close> is
  exactly 0 the status is 1, and \<open>xi\<close> and \<open>eta\<close> are computed with the denominator clamped
  to \<open>+\<epsilon>\<close> and are finite; for every input with a finite \<open>denom\<close>, \<open>xi\<close> and \<open>eta\<close> are the
  finite quotients by the denominator so chosen.
\<close>

theorem slaS2tp_classification:
  "TINY = Finite (8796093 / 8796093022208) \<and>
   (8796093 / 8796093022208 < d \<longrightarrow> s2tp_handle (Finite d) = (0, Finite d)) \<and>
   (0 \<le> d \<and> d \<le> 8796093 / 8796093022208 \<longrightarrow> s2tp_handle (Finite d) = (1, TINY)) \<and>
   (- (8796093 / 8796093022208) < d \<and> d < 0 \<longrightarrow> s2tp_handle (Finite d) = (2, f32_neg TINY)) \<and>
   (d \<le> - (8796093 / 8796093022208) \<longrightarrow> s2tp_handle (Finite d) = (3, Finite d)) \<and>
   (s2tp_denom ra dec raz decz = Finite d \<longrightarrow>
      (\<exists>d' xi eta.
         snd (s2tp_handle (Finite d)) = Finite d' \<and>
         f32_div (s2tp_xi_num ra dec raz decz) (Finite d') = Some (Finite xi) \<and>
         f32_div (s2tp_eta_num ra dec raz decz) (Finite d') = Some (Finite eta) \<and>
         slaS2tp ra dec raz decz
           = Some (Finite xi, Finite eta, fst (s2tp_handle (Finite d))))) \<and>
   (s2tp_denom ra dec raz decz = Finite 0 \<longrightarrow>
      (\<exists>xi eta.
         f32_div (s2tp_xi_num ra dec raz decz) TINY = Some (Finite xi) \<and>
         f32_div (s2tp_eta_num ra dec raz decz) TINY = Some (Finite eta) \<and>
         slaS2tp ra dec raz decz = Some (Finite xi, Finite eta, 1)))"
proof -
  have fin: "\<exists>d' xi eta.
         snd (s2tp_handle (Finite d)) = Finite d' \<and>
         f32_div (s2tp_xi_num ra dec raz decz) (Finite d') = Some (Finite xi) \<and>
         f32_div (s2tp_eta_num ra dec raz decz) (Finite d') = Some (Finite eta) \<and>
         slaS2tp ra dec raz decz = Some (Finite xi, Finite eta, fst (s2tp_handle (Finite d)))"
    if "s2tp_denom ra dec raz decz = Finite d" for d
    using slaS2tp_cases [of ra dec raz decz] that by auto
  have zero: "\<exists>xi eta.
         f32_div (s2tp_xi_num ra dec raz decz) TINY = Some (Finite xi) \<and>
         f32_div (s2tp_eta_num ra dec raz decz) TINY = Some (Finite eta) \<and>
         slaS2tp ra dec raz decz = Some (Finite xi, Finite eta, 1)"
    if "s2tp_denom ra dec raz decz = Finite 0"
    using fin [OF that] by (auto simp: s2tp_handle_Finite)
  show ?thesis
    using fin zero by (simp add: s2tp_handle_Finite TINY_value)
qed

theorem slaS2tp_classification_witness:
  "s2tp_denom (Finite 0) (Finite fl_quarter_pi) (Finite 0) (Finite (- fl_quarter_pi)) = Finite 0 \<and>
   (\<exists>xi eta.
      slaS2tp (Finite 0) (Finite fl_quarter_pi) (Finite 0) (Finite (- fl_quarter_pi))
        = Some (Finite xi, Finite eta, 1)) \<and>
   s2tp_denom (Finite 0) (Finite 0) (Finite 0) (Finite fl_half_pi)
     = Finite (- (6151831 / 140737488355328)) \<and>
   s2tp_handle (Finite (- (6151831 / 140737488355328))) = (2, f32_neg TINY) \<and>
   slaS2tp (Finite 0) (Finite 0) (Finite 0) (Finite fl_half_pi)
     = Some (Finite 0, Finite 1000000, 2) \<and>
   s2tp_handle (Finite 1) = (0, Finite 1) \<and>
   s2tp_handle (Finite (8796093 / 8796093022208)) = (1, TINY) \<and>
   s2tp_handle (Finite (- 1 / 2000000)) = (2, f32_neg TINY) \<and>
   s2tp_handle (Finite (- (8796093 / 8796093022208)))
     = (3, Finite (- (8796093 / 8796093022208)))"
  using slaS2tp_classification
          [of 0 "Finite 0" "Finite fl_quarter_pi" "Finite 0" "Finite (- fl_quarter_pi)"]
        slaS2tp_classification [of "- (6151831 / 140737488355328)"]
        slaS2tp_classification [of 1]
        slaS2tp_classification [of "8796093 / 8796093022208"]
        slaS2tp_classification [of "- 1 / 2000000"]
        slaS2tp_classification [of "- (8796093 / 8796093022208)"]
        s2tp_denom_quarter_pi s2tp_denom_half_pi slaS2tp_half_pi
  by auto

theorem slaS2tp_zero_denom_counterexample:
  "is_float32 fl_quarter_pi \<and> is_float32 (- fl_quarter_pi) \<and> is_float32 0 \<and>
   s2tp_denom (Finite 0) (Finite fl_quarter_pi) (Finite 0) (Finite (- fl_quarter_pi)) = Finite 0 \<and>
   s2tp_handle (Finite 0) = (1, TINY) \<and>
   s2tp_handle (Finite 0) \<noteq> (2, f32_neg TINY) \<and>
   slaS2tp (Finite 0) (Finite fl_quarter_pi) (Finite 0) (Finite (- fl_quarter_pi))
     = Some (Finite 0, Finite (15999999 / 16), 1)"
  by (simp add: is_float32_def rnd32_zero rnd32_fl_quarter_pi rnd32_neg_fl_quarter_pi
        s2tp_denom_quarter_pi slaS2tp_quarter_pi s2tp_handle_Finite)

text \<open>
  Claim C10, as amended. In \<open>slaS2tp\<close>, for every input for which the single-precision
  \<open>denom\<close> of line 48 is not NaN, the denominator used in the divisions for \<open>xi\<close> and
  \<open>eta\<close> has absolute value at least \<open>TINY\<close>, the single-precision constant
  \<open>1e-6f = 8796093 / 2^43\<close>, which is a little below \<open>10^-6\<close>; it is therefore not zero,
  both divisions are defined in every branch, and \<open>xi\<close> and \<open>eta\<close> are finite. When \<open>denom\<close>
  is NaN (an input that is NaN or infinite, or a difference \<open>ra - raz\<close> that overflows),
  the last branch is taken with the denominator unchanged: the status is 3 and \<open>xi\<close> and
  \<open>eta\<close> are NaN.
\<close>

theorem slaS2tp_divisor_bounded:
  "TINY = Finite (8796093 / 8796093022208) \<and>
   ((s2tp_denom ra dec raz decz = NaN \<and>
     snd (s2tp_handle (s2tp_denom ra dec raz decz)) = NaN \<and>
     slaS2tp ra dec raz decz = Some (NaN, NaN, 3)) \<or>
    (\<exists>d d' xi eta.
       s2tp_denom ra dec raz decz = Finite d \<and>
       snd (s2tp_handle (s2tp_denom ra dec raz decz)) = Finite d' \<and>
       8796093 / 8796093022208 \<le> \<bar>d'\<bar> \<and> d' \<noteq> 0 \<and>
       f32_div (s2tp_xi_num ra dec raz decz) (Finite d') = Some (Finite xi) \<and>
       f32_div (s2tp_eta_num ra dec raz decz) (Finite d') = Some (Finite eta) \<and>
       slaS2tp ra dec raz decz
         = Some (Finite xi, Finite eta, fst (s2tp_handle (s2tp_denom ra dec raz decz)))))"
proof -
  consider "s2tp_denom ra dec raz decz = NaN" "slaS2tp ra dec raz decz = Some (NaN, NaN, 3)"
    | d d' xi eta where "s2tp_denom ra dec raz decz = Finite d"
        "snd (s2tp_handle (Finite d)) = Finite d'" "8796093 / 8796093022208 \<le> \<bar>d'\<bar>"
        "f32_div (s2tp_xi_num ra dec raz decz) (Finite d') = Some (Finite xi)"
        "f32_div (s2tp_eta_num ra dec raz decz) (Finite d') = Some (Finite eta)"
        "slaS2tp ra dec raz decz = Some (Finite xi, Finite eta, fst (s2tp_handle (Finite d)))"
    using slaS2tp_cases [of ra dec raz decz] by blast
  then show ?thesis
  proof cases
    case 1
    then show ?thesis
      by (simp add: TINY_value s2tp_handle_NaN)
  next
    case 2
    from 2(3) have "d' \<noteq> 0"
      by auto
    with 2 show ?thesis
      by (auto simp: TINY_value)
  qed
qed

theorem slaS2tp_divisor_bounded_witness:
  "s2tp_denom (Finite 0) (Finite 0) (Finite 0) (Finite 0) = Finite 1 \<and>
   (\<exists>d' xi eta.
      snd (s2tp_handle (s2tp_denom (Finite 0) (Finite 0) (Finite 0) (Finite 0))) = Finite d' \<and>
      8796093 / 8796093022208 \<le> \<bar>d'\<bar> \<and>
      slaS2tp (Finite 0) (Finite 0) (Finite 0) (Finite 0) = Some (Finite xi, Finite eta, 0))"
  using slaS2tp_divisor_bounded [of "Finite 0" "Finite 0" "Finite 0" "Finite 0"]
        s2tp_denom_origin
  by (auto simp: s2tp_handle_Finite)

theorem slaS2tp_divisor_counterexample:
  "slaS2tp NaN (Finite 0) (Finite 0) (Finite 0) = Some (NaN, NaN, 3) \<and>
   snd (s2tp_handle (s2tp_denom NaN (Finite 0) (Finite 0) (Finite 0))) = NaN \<and>
   slaS2tp (Finite 0) PInf (Finite 0) (Finite 0) = Some (NaN, NaN, 3) \<and>
   is_float32 fl_quarter_pi \<and> is_float32 (- fl_quarter_pi) \<and> is_float32 0 \<and>
   snd (s2tp_handle
          (s2tp_denom (Finite 0) (Finite fl_quarter_pi) (Finite 0) (Finite (- fl_quarter_pi))))
     = Finite (8796093 / 8796093022208) \<and>
   (8796093 / 8796093022208 :: real) < 1 / 1000000"
  by (simp add: slaS2tp_unfold s2tp_denom_NaN_ra s2tp_denom_PInf_dec s2tp_handle_NaN
        is_float32_def rnd32_zero rnd32_fl_quarter_pi rnd32_neg_fl_quarter_pi
        s2tp_denom_quarter_pi s2tp_handle_Finite TINY_value)

section \<open>Time scalar conversion: results\<close>

text \<open>
  Claim C5. \<open>slaDtf2d\<close> always returns \<open>days = (3600 hour + 60 minute + second) / 86400\<close>.
  Its status is found by checking the seconds first (3 if \<open>sec < 0\<close> or \<open>sec \<ge> 60\<close>), then
  the minutes (2 if outside \<open>[0, 59]\<close>, overwriting), then the hours (1 if outside
  \<open>[0, 23]\<close>, overwriting): an invalid hour gives status 1 whatever the other fields are,
  and an invalid minute with a valid hour gives status 2 whatever the seconds are.
\<close>

theorem slaDtf2d_days_and_status:
  "fst (slaDtf2d ihour imin sec)
     = (3600 * real_of_int ihour + 60 * real_of_int imin + sec) / 86400 \<and>
   snd (slaDtf2d ihour imin sec)
     = (if ihour < 0 \<or> 23 < ihour then 1
        else if imin < 0 \<or> 59 < imin then 2
        else if sec < 0 \<or> 60 \<le> sec then 3
        else 0) \<and>
   (ihour < 0 \<or> 23 < ihour \<longrightarrow> snd (slaDtf2d ihour imin sec) = 1) \<and>
   (0 \<le> ihour \<and> ihour \<le> 23 \<and> (imin < 0 \<or> 59 < imin) \<longrightarrow> snd (slaDtf2d ihour imin sec) = 2)"
  by (simp add: slaDtf2d_def D2S_def Let_def)

theorem slaDtf2d_days_and_status_witness:
  "slaDtf2d 25 70 70 = ((3600 * 25 + 60 * 70 + 70) / 86400, 1) \<and>
   slaDtf2d 12 70 70 = ((3600 * 12 + 60 * 70 + 70) / 86400, 2)"
  using slaDtf2d_days_and_status [of 25 70 70] slaDtf2d_days_and_status [of 12 70 70]
  by (simp add: prod_eq_iff)

section \<open>Nutation model: results\<close>

text \<open>
  Claim C3, as amended. The nutation series table evaluated by \<open>slaNutc\<close> contains exactly
  194 terms, each with nine integer multipliers over the nine fundamental angles, four
  longitude coefficients and four obliquity coefficients, and the accumulation loop runs
  exactly 194 times for every epoch.
\<close>

theorem slaNutc_194_terms:
  "length na = 194 \<and> list_all (\<lambda>row. length row = 9) na \<and>
   length psi = 194 \<and> list_all (\<lambda>row. length row = 4) psi \<and>
   length eps = 194 \<and> list_all (\<lambda>row. length row = 4) eps \<and>
   nterms = 194 \<and>
   acc_iters (nutc_series date) = 194"
  by (simp add: na_length na_rows psi_length psi_rows eps_length eps_rows
        nterms_value nutc_series_iters)

theorem slaNutc_263_terms_counterexample:
  "length na \<noteq> 263 \<and> nterms \<noteq> 263 \<and> acc_iters (nutc_series 51544.5) \<noteq> 263"
  by (simp add: na_length nterms_value nutc_series_iters)

section \<open>Planetary ephemeris model: results\<close>

text \<open>
  Claim C7. For every epoch and every body number outside \<open>[1, 9]\<close>, \<open>slaPlanet\<close> returns
  status \<open>-1\<close> (illegal body) with the all-zero vector of six components; the result
  depends neither on the epoch nor on the collaborator, which is not called.
\<close>

theorem slaPlanet_invalid_body:
  assumes "np < 1 \<or> 9 < np"
  shows "slaPlanet P date np = ([0, 0, 0, 0, 0, 0], - 1)"
  using assms by (auto simp add: slaPlanet_def numeral_eq_Suc)

theorem slaPlanet_invalid_body_witness:
  "((0 :: int) < 1 \<or> (9 :: int) < 0) \<and>
   slaPlanet (\<lambda>date jform epoch orbinc anode perih aorq e aorl dm. ([1, 1, 1, 1, 1, 1], 0))
     51544.5 0 = ([0, 0, 0, 0, 0, 0], - 1) \<and>
   slaPlanet (\<lambda>date jform epoch orbinc anode perih aorq e aorl dm. ([1, 1, 1, 1, 1, 1], 0))
     51544.5 10 = ([0, 0, 0, 0, 0, 0], - 1)"
  using slaPlanet_invalid_body
          [of 0 "\<lambda>date jform epoch orbinc anode perih aorq e aorl dm. ([1, 1, 1, 1, 1, 1], 0)"
              "51544.5"]
        slaPlanet_invalid_body
          [of 10 "\<lambda>date jform epoch orbinc anode perih aorq e aorl dm. ([1, 1, 1, 1, 1, 1], 0)"
              "51544.5"]
  by simp

text \<open>
  Claim C6. For every body 1 to 8 and every epoch, with \<open>t\<close> the Julian millennia from
  J2000, the final status of \<open>slaPlanet\<close> is \<open>-2\<close> (solution did not converge) if the
  collaborator reports a failure, whatever \<open>t\<close> is; otherwise \<open>+1\<close> (date out of range) if
  \<open>|t| > 1\<close>; otherwise 0. In all three cases the vector returned is the one the collaborator
  computed from the elements of the body.
\<close>

theorem slaPlanet_major_status:
  assumes "1 \<le> np" and "np \<le> 8"
  shows "slaPlanet P date np =
    (fst (planet_call P date (nat (np - 1))),
     if snd (planet_call P date (nat (np - 1))) < 0 then - 2
     else if \<bar>(date - 51544.5) / 365250\<bar> > 1 then 1
     else 0)"
  using assms by (simp add: slaPlanet_def Let_def split: prod.splits)

theorem slaPlanet_major_status_witness:
  "(1 :: int) \<le> 5 \<and> (5 :: int) \<le> 8 \<and>
   slaPlanet (\<lambda>date jform epoch orbinc anode perih aorq e aorl dm. ([1, 2, 3, 4, 5, 6], - 1))
     782044.5 5 = ([1, 2, 3, 4, 5, 6], - 2) \<and>
   slaPlanet (\<lambda>date jform epoch orbinc anode perih aorq e aorl dm. ([1, 2, 3, 4, 5, 6], 0))
     782044.5 5 = ([1, 2, 3, 4, 5, 6], 1) \<and>
   slaPlanet (\<lambda>date jform epoch orbinc anode perih aorq e aorl dm. ([1, 2, 3, 4, 5, 6], 0))
     51544.5 5 = ([1, 2, 3, 4, 5, 6], 0)"
  using slaPlanet_major_status
          [of 5 "\<lambda>date jform epoch orbinc anode perih aorq e aorl dm. ([1, 2, 3, 4, 5, 6], - 1)"
              "782044.5"]
        slaPlanet_major_status
          [of 5 "\<lambda>date jform epoch orbinc anode perih aorq e aorl dm. ([1, 2, 3, 4, 5, 6], 0)"
              "782044.5"]
        slaPlanet_major_status
          [of 5 "\<lambda>date jform epoch orbinc anode perih aorq e aorl dm. ([1, 2, 3, 4, 5, 6], 0)"
              "51544.5"]
  by (simp add: planet_call_def Let_def split_beta)

text \<open>
  Claim C4. For every body 1 to 8 and every epoch, the mean longitude and the longitude of
  the ascending node that \<open>slaPlanet\<close> passes to the collaborator, after their reduction
  modulo a full turn, lie in \<open>[0, 2\<pi>)\<close>, whatever the sign of the value before the
  reduction.
\<close>

theorem slaPlanet_reduced_angles:
  assumes "1 \<le> np" and "np \<le> 8"
  shows "\<exists>di anode dpe da de dl dm.
           planet_elements ((date - 51544.5) / 365250) (nat (np - 1))
             = (di, anode, dpe, da, de, dl, dm) \<and>
           fst (slaPlanet P date np) = fst (P date 1 date di anode dpe da de dl dm) \<and>
           0 \<le> anode \<and> anode < 2 * pi \<and> 0 \<le> dl \<and> dl < 2 * pi"
proof -
  obtain di anode dpe da de dl dm where
    el: "planet_elements ((date - 51544.5) / 365250) (nat (np - 1))
           = (di, anode, dpe, da, de, dl, dm)"
    by (metis prod_cases7)
  have "planet_call P date (nat (np - 1)) = P date 1 date di anode dpe da de dl dm"
    unfolding planet_call_def Let_def el by simp
  then have "fst (slaPlanet P date np) = fst (P date 1 date di anode dpe da de dl dm)"
    using slaPlanet_major [OF assms, of P date] by simp
  with el planet_elements_range [OF el] show ?thesis
    by blast
qed

theorem slaPlanet_reduced_angles_witness:
  "(1 :: int) \<le> 1 \<and> (1 :: int) \<le> 8 \<and>
   (\<exists>di anode dpe da de dl dm.
      planet_elements ((- 313705.5 - 51544.5) / 365250) (nat (1 - 1))
        = (di, anode, dpe, da, de, dl, dm) \<and>
      fst (slaPlanet (\<lambda>date jform epoch orbinc anode perih aorq e aorl dm. ([anode, aorl], 0))
             (- 313705.5) 1) = [anode, dl] \<and>
      0 \<le> anode \<and> anode < 2 * pi \<and> 0 \<le> dl \<and> dl < 2 * pi)"
  using slaPlanet_reduced_angles
          [of 1 "- 313705.5"
              "\<lambda>date jform epoch orbinc anode perih aorq e aorl dm. ([anode, aorl], 0)"]
  by simp

text \<open>
  Claim C1. For Pluto (body 9) at an epoch whose \<open>t\<close>, in Julian centuries from J2000, lies
  outside \<open>[-1.15, 1.0]\<close>, the claim asks for the date-out-of-range warning, the value
  \<open>+1\<close> that bodies 1 to 8 get, distinct from the illegal-body value \<open>-1\<close>. At the
  Modified Julian Date 124594.5 (\<open>t = 2\<close>) the routine stores \<open>-1\<close>, the value it also
  returns for the illegal body 0, while body 1 at two millennia from J2000 gets \<open>+1\<close>; the
  vector of Pluto is computed all the same.
\<close>

theorem slaPlanet_pluto_remote_epoch:
  "snd (slaPlanet P 124594.5 9) = - 1 \<and>
   fst (slaPlanet P 124594.5 9) = pluto_pv 2 \<and>
   snd (slaPlanet P 124594.5 0) = - 1 \<and>
   snd (slaPlanet (\<lambda>date jform epoch orbinc anode perih aorq e aorl dm. ([], 0)) 782044.5 1) = 1"
  by (simp add: slaPlanet_def Let_def planet_call_def split_beta)

end
